theory Spec2Isabelle
  imports Complex_Main
begin

section \<open>Values shared by the whole development\<close>

text \<open>
  Python exceptions are values: a computation that can raise returns \<open>py_error + 'a\<close>,
  with \<open>Inl\<close> for the exception. Floating point numbers are modelled as exact reals;
  a pandas cell is a \<open>real option\<close>, where \<open>None\<close> stands for NaN. Rounding error and
  overflow of the binary representation are outside the model. The libraries pandas,
  numpy, ta and yfinance are not part of the repository: an operation of pandas or
  numpy is written out where the code relies on it, and a computation of ta or
  yfinance is a parameter of the function that calls it.
\<close>

datatype py_error = KeyError | ValueError | TypeError | IndexError | ZeroDivisionError | LibraryError

type_synonym cell = "real option"
type_synonym series = "cell list"

section \<open>Indicator library (advanced\_indicators.py, simple\_rsi.py)\<close>

subsection \<open>The pandas primitives the indicators are written with\<close>

text \<open>
  Elementwise arithmetic on cells: NaN is absorbing. numpy answers a division by zero
  with an infinity or NaN and no exception; the model has no infinite cell and writes
  NaN for both. In \<open>calculate_stochastic_rsi\<close> and \<open>calculate_rsi\<close> every divisor is
  different from 0; elsewhere a divisor is a price, a band or an average loss whose
  quotient no property below depends on.
\<close>

fun cell_add :: "cell \<Rightarrow> cell \<Rightarrow> cell" where
  "cell_add (Some a) (Some b) = Some (a + b)"
| "cell_add _ _ = None"

fun cell_sub :: "cell \<Rightarrow> cell \<Rightarrow> cell" where
  "cell_sub (Some a) (Some b) = Some (a - b)"
| "cell_sub _ _ = None"

fun cell_mul :: "cell \<Rightarrow> cell \<Rightarrow> cell" where
  "cell_mul (Some a) (Some b) = Some (a * b)"
| "cell_mul _ _ = None"

fun cell_div :: "cell \<Rightarrow> cell \<Rightarrow> cell" where
  "cell_div (Some a) (Some b) = (if b = 0 then None else Some (a / b))"
| "cell_div _ _ = None"

text \<open>
  Modelled from the spec: \<open>Series.diff()\<close> and \<open>Series.rolling(w)\<close> belong to pandas. In the
  spec an indicator is a series aligned with its input that is undefined before its
  lookback window is satisfied, and the RSI averages gains and losses over a rolling
  window of \<open>period\<close> bars. The first entry of \<open>diff\<close> is NaN, entry \<open>i\<close> is
  \<open>x\<^sub>i - x\<^sub>i\<^sub>-\<^sub>1\<close>.
\<close>

fun diff :: "series \<Rightarrow> series" where
  "diff [] = []"
| "diff (x # xs) = None # map2 cell_sub xs (x # xs)"

text \<open>
  \<open>Series.rolling(w).mean()\<close> with the default \<open>min_periods = w\<close>: entry \<open>i\<close> is
  defined when the \<open>w\<close> entries ending at \<open>i\<close> exist and none of them is NaN.
\<close>

definition window_at :: "nat \<Rightarrow> series \<Rightarrow> nat \<Rightarrow> series" where
  "window_at w xs i = take w (drop (Suc i - w) xs)"

definition complete_window :: "nat \<Rightarrow> series \<Rightarrow> nat \<Rightarrow> bool" where
  "complete_window w xs i = (0 < w \<and> w \<le> Suc i \<and> None \<notin> set (window_at w xs i))"

definition rolling_mean :: "nat \<Rightarrow> series \<Rightarrow> series" where
  "rolling_mean w xs =
     map (\<lambda>i. if complete_window w xs i
               then Some (sum_list (map the (window_at w xs i)) / real w)
               else None) [0..<length xs]"

text \<open>
  Modelled from the spec: \<open>Series.ewm(span=period, adjust=False).mean()\<close> belongs to
  pandas, which is not part of the repository. The spec gives the recursion: smoothing
  factor \<open>\<alpha> = 2 / (period + 1)\<close>, the first defined value is the first observation, and
  every later observation \<open>x\<close> replaces the average \<open>y\<close> by \<open>(1 - \<alpha>) * y + \<alpha> * x\<close>. The
  state is the running average and the weight it carries. For a missing observation
  the model follows the pandas documentation: the average stays, and its weight decays
  by \<open>1 - \<alpha>\<close> until the next observation, which is then combined with it as a
  weighted mean.
\<close>

fun ewm_step :: "real \<Rightarrow> cell \<times> real \<Rightarrow> cell \<Rightarrow> cell \<times> real" where
  "ewm_step \<alpha> (None, old_wt) None = (None, old_wt)"
| "ewm_step \<alpha> (None, old_wt) (Some x) = (Some x, old_wt)"
| "ewm_step \<alpha> (Some y, old_wt) None = (Some y, old_wt * (1 - \<alpha>))"
| "ewm_step \<alpha> (Some y, old_wt) (Some x) =
     (Some ((old_wt * (1 - \<alpha>) * y + \<alpha> * x) / (old_wt * (1 - \<alpha>) + \<alpha>)), 1)"

fun ewm_from :: "real \<Rightarrow> cell \<times> real \<Rightarrow> series \<Rightarrow> series" where
  "ewm_from \<alpha> st [] = []"
| "ewm_from \<alpha> st (x # xs) = (let st' = ewm_step \<alpha> st x in fst st' # ewm_from \<alpha> st' xs)"

definition ewm_mean :: "real \<Rightarrow> series \<Rightarrow> series" where
  "ewm_mean \<alpha> xs = ewm_from \<alpha> (None, 1) xs"

subsection \<open>calculate\_ema, calculate\_macd\<close>

text \<open>
  \<open>calculate_ema(data, period)\<close>. pandas rejects a span below 1 with an exception, which the
  function catches: it then returns a series of NaN with the index of the input.
\<close>

definition calculate_ema :: "series \<Rightarrow> nat \<Rightarrow> series" where
  "calculate_ema data period =
     (if period < 1 then replicate (length data) None
      else ewm_mean (2 / (real period + 1)) data)"

definition calculate_macd :: "series \<Rightarrow> nat \<Rightarrow> nat \<Rightarrow> nat \<Rightarrow> series \<times> series \<times> series" where
  "calculate_macd data fast_period slow_period signal_period =
     (let fast_ema = calculate_ema data fast_period;
          slow_ema = calculate_ema data slow_period;
          macd_line = map2 cell_sub fast_ema slow_ema;
          signal_line = calculate_ema macd_line signal_period;
          histogram = map2 cell_sub macd_line signal_line
      in (macd_line, signal_line, histogram))"

subsection \<open>calculate\_stochastic\_rsi (advanced\_indicators.py)\<close>

text \<open>
  \<open>delta.where(delta > 0, 0)\<close> keeps an entry where the condition holds and puts 0
  elsewhere; a comparison with NaN is false, so the NaN that \<open>diff\<close> leaves at the
  front becomes 0. \<open>loss\<close> is the negated result of the same with \<open>delta < 0\<close>.
\<close>

fun where_gt0 :: "cell \<Rightarrow> cell" where
  "where_gt0 (Some d) = (if d > 0 then Some d else Some 0)"
| "where_gt0 None = Some 0"

fun where_lt0 :: "cell \<Rightarrow> cell" where
  "where_lt0 (Some d) = (if d < 0 then Some d else Some 0)"
| "where_lt0 None = Some 0"

fun cell_neg :: "cell \<Rightarrow> cell" where
  "cell_neg c = map_option uminus c"

text \<open>
  \<open>np.where(avg_loss == 0, 0, avg_gain / avg_loss)\<close>: where the average loss is
  exactly 0 the relative strength is set to 0; a NaN average loss is not equal to 0
  and leaves the quotient, which is NaN.
\<close>

fun rs_where :: "cell \<Rightarrow> cell \<Rightarrow> cell" where
  "rs_where avg_gain (Some l) = (if l = 0 then Some 0 else cell_div avg_gain (Some l))"
| "rs_where avg_gain None = None"

text \<open>\<open>100 - (100 / (1 + rs))\<close>, elementwise.\<close>

definition rsi_of_rs :: "cell \<Rightarrow> cell" where
  "rsi_of_rs rs = cell_sub (Some 100) (cell_div (Some 100) (cell_add (Some 1) rs))"

definition stoch_avg_gain :: "series \<Rightarrow> nat \<Rightarrow> series" where
  "stoch_avg_gain data period = rolling_mean period (map where_gt0 (diff data))"

definition stoch_avg_loss :: "series \<Rightarrow> nat \<Rightarrow> series" where
  "stoch_avg_loss data period = rolling_mean period (map (cell_neg \<circ> where_lt0) (diff data))"

definition stoch_rsi_line :: "series \<Rightarrow> nat \<Rightarrow> series" where
  "stoch_rsi_line data period =
     map rsi_of_rs (map2 rs_where (stoch_avg_gain data period) (stoch_avg_loss data period))"

text \<open>
  \<open>rolling(w).min()\<close> and \<open>rolling(w).max()\<close> are defined on the same windows as the mean.
\<close>

definition rolling_min :: "nat \<Rightarrow> series \<Rightarrow> series" where
  "rolling_min w xs =
     map (\<lambda>i. if complete_window w xs i
               then Some (Min (set (map the (window_at w xs i))))
               else None) [0..<length xs]"

definition rolling_max :: "nat \<Rightarrow> series \<Rightarrow> series" where
  "rolling_max w xs =
     map (\<lambda>i. if complete_window w xs i
               then Some (Max (set (map the (window_at w xs i))))
               else None) [0..<length xs]"

text \<open>
  \<open>denominator.replace(0, np.nan)\<close>, the quotient scaled by 100, and
  \<open>fillna(50)\<close> on the result.
\<close>

fun replace0_nan :: "cell \<Rightarrow> cell" where
  "replace0_nan (Some d) = (if d = 0 then None else Some d)"
| "replace0_nan None = None"

fun fillna :: "real \<Rightarrow> cell \<Rightarrow> cell" where
  "fillna v None = Some v"
| "fillna v (Some x) = Some x"

definition stoch_of :: "cell \<Rightarrow> cell \<Rightarrow> cell \<Rightarrow> cell" where
  "stoch_of rsi min_rsi max_rsi =
     fillna 50 (map_option (\<lambda>q. 100 * q)
       (cell_div (cell_sub rsi min_rsi) (replace0_nan (cell_sub max_rsi min_rsi))))"

text \<open>
  The function returns the RSI line and the two smoothed stochastic lines. A window
  parameter is a natural number here: the repository calls the function with its
  defaults (14, 3, 3) only.
\<close>

definition calculate_stochastic_rsi :: "series \<Rightarrow> nat \<Rightarrow> nat \<Rightarrow> nat \<Rightarrow> series \<times> series \<times> series" where
  "calculate_stochastic_rsi data period k_period d_period =
     (let rsi = stoch_rsi_line data period;
          min_rsi = rolling_min period rsi;
          max_rsi = rolling_max period rsi;
          stoch_rsi = map (\<lambda>(r, mn, mx). stoch_of r mn mx) (zip rsi (zip min_rsi max_rsi));
          k = rolling_mean k_period stoch_rsi;
          d = rolling_mean d_period k
      in (rsi, k, d))"

subsection \<open>calculate\_rsi (simple\_rsi.py)\<close>

text \<open>
  \<open>up[up < 0] = 0\<close> and \<open>down[down > 0] = 0\<close> overwrite the entries that satisfy the
  condition, so here a NaN stays; \<open>down\<close> is then made positive with \<open>abs\<close>.
  \<open>roll_down_safe[roll_down_safe == 0] = 1e-10\<close> replaces an average loss of exactly
  0 by \<open>10\<^sup>-\<^sup>1\<^sup>0\<close> before the division.
\<close>

fun clip_neg :: "cell \<Rightarrow> cell" where
  "clip_neg c = map_option (\<lambda>d. if d < 0 then 0 else d) c"

fun clip_pos_abs :: "cell \<Rightarrow> cell" where
  "clip_pos_abs c = map_option (\<lambda>d. \<bar>if d > 0 then 0 else d\<bar>) c"

fun safe_down :: "cell \<Rightarrow> cell" where
  "safe_down c = map_option (\<lambda>l. if l = 0 then 1 / 10 ^ 10 else l) c"

definition roll_up :: "series \<Rightarrow> nat \<Rightarrow> series" where
  "roll_up price_series window = rolling_mean window (map clip_neg (diff price_series))"

definition roll_down :: "series \<Rightarrow> nat \<Rightarrow> series" where
  "roll_down price_series window = rolling_mean window (map clip_pos_abs (diff price_series))"

definition calculate_rsi :: "series \<Rightarrow> nat \<Rightarrow> series" where
  "calculate_rsi price_series window =
     (let rs = map2 cell_div (roll_up price_series window)
                             (map safe_down (roll_down price_series window))
      in map rsi_of_rs rs)"

subsection \<open>Tables, dictionaries and unpacking\<close>

text \<open>
  A pandas DataFrame: the row index (time stamps) and the columns in their order, each
  a one-dimensional series. \<open>len(df)\<close> is the length of the index, \<open>df.empty\<close> holds when
  either axis has length 0, and \<open>df[c]\<close> raises KeyError for a column that is absent.
\<close>

record frame =
  index :: "nat list"
  columns :: "(string \<times> series) list"

definition len :: "frame \<Rightarrow> nat" where
  "len df = length (index df)"

definition empty_df :: "frame \<Rightarrow> bool" where
  "empty_df df = (index df = [] \<or> columns df = [])"

definition column :: "frame \<Rightarrow> string \<Rightarrow> py_error + series" where
  "column df c = (case map_of (columns df) c of None \<Rightarrow> Inl KeyError | Some xs \<Rightarrow> Inr xs)"

text \<open>Sequencing of computations that can raise.\<close>

fun bind_err :: "py_error + 'a \<Rightarrow> ('a \<Rightarrow> py_error + 'b) \<Rightarrow> py_error + 'b" where
  "bind_err (Inl e) f = Inl e"
| "bind_err (Inr x) f = f x"

text \<open>
  The values a result dictionary holds, and a dictionary as the list of its items in
  insertion order. Iterating a dictionary yields its keys, so the tuple assignment
  \<open>a, b, c = d\<close> succeeds only for a dictionary of exactly three keys (and binds the
  keys); more or fewer raise ValueError, and unpacking \<open>None\<close> raises TypeError.
\<close>

datatype pyval =
    FloatSeries series
  | BoolSeries "bool list"
  | FloatVal cell
  | BoolVal bool
  | StrVal string
  | NoneVal

type_synonym pydict = "(string \<times> pyval) list"

fun unpack3 :: "pydict option \<Rightarrow> py_error + (string \<times> string \<times> string)" where
  "unpack3 None = Inl TypeError"
| "unpack3 (Some d) = (case map fst d of [a, b, c] \<Rightarrow> Inr (a, b, c) | _ \<Rightarrow> Inl ValueError)"

fun unpack2 :: "pydict option \<Rightarrow> py_error + (string \<times> string)" where
  "unpack2 None = Inl TypeError"
| "unpack2 (Some d) = (case map fst d of [a, b] \<Rightarrow> Inr (a, b) | _ \<Rightarrow> Inl ValueError)"

subsection \<open>check\_ema\_crossover, calculate\_bollinger\_bands\<close>

text \<open>Comparisons of cells: false as soon as one side is NaN.\<close>

fun cell_lt :: "cell \<Rightarrow> cell \<Rightarrow> bool" where
  "cell_lt (Some a) (Some b) = (a < b)"
| "cell_lt _ _ = False"

definition cell_gt :: "cell \<Rightarrow> cell \<Rightarrow> bool" where
  "cell_gt a b = cell_lt b a"

text \<open>
  \<open>check_ema_crossover(data, short_period, long_period)\<close>. \<open>iloc[-1]\<close> on an empty series
  raises IndexError, which the function catches. Both the normal and the exceptional
  return value are dictionaries of five keys.
\<close>

definition check_ema_crossover :: "series \<Rightarrow> nat \<Rightarrow> nat \<Rightarrow> pydict" where
  "check_ema_crossover data short_period long_period =
     (let short_ema = calculate_ema data short_period;
          long_ema = calculate_ema data long_period
      in if short_ema = [] \<or> long_ema = [] then
           [(''short_ema'', NoneVal), (''long_ema'', NoneVal), (''position'', StrVal ''unknown''),
            (''bullish_crossover'', BoolVal False), (''bearish_crossover'', BoolVal False)]
         else
           (let current_short = last short_ema;
                current_long = last long_ema;
                prev = (if length short_ema > 1 \<and> length long_ema > 1
                        then Some (short_ema ! (length short_ema - 2), long_ema ! (length long_ema - 2))
                        else None);
                bullish_crossover = (case prev of None \<Rightarrow> False
                   | Some (prev_short, prev_long) \<Rightarrow>
                       cell_lt prev_short prev_long \<and> cell_gt current_short current_long);
                bearish_crossover = (case prev of None \<Rightarrow> False
                   | Some (prev_short, prev_long) \<Rightarrow>
                       cell_gt prev_short prev_long \<and> cell_lt current_short current_long);
                position = (if cell_gt current_short current_long then ''bullish'' else ''bearish'')
            in [(''short_ema'', FloatVal current_short), (''long_ema'', FloatVal current_long),
                (''position'', StrVal position),
                (''bullish_crossover'', BoolVal bullish_crossover),
                (''bearish_crossover'', BoolVal bearish_crossover)]))"

text \<open>
  \<open>calculate_bollinger_bands(data, window, window_dev)\<close>. The bands come from the class
  \<open>BollingerBands\<close> of the library \<open>ta\<close>, which is not part of the repository: they are
  the parameter \<open>bands\<close>, which gives the high, low and middle band or raises. The
  function returns a dictionary of six keys, or \<open>None\<close> when anything raised.
\<close>

type_synonym bands_lib = "series \<Rightarrow> nat \<Rightarrow> nat \<Rightarrow> py_error + (series \<times> series \<times> series)"

definition calculate_bollinger_bands :: "bands_lib \<Rightarrow> series \<Rightarrow> nat \<Rightarrow> nat \<Rightarrow> pydict option" where
  "calculate_bollinger_bands bands data window window_dev =
     (case bands data window window_dev of
        Inl e \<Rightarrow> None
      | Inr (bb_high_band, bb_low_band, bb_mid_band) \<Rightarrow>
          (let bb_width = map2 cell_div (map2 cell_sub bb_high_band bb_low_band) bb_mid_band;
               price_above_high = map2 cell_gt data bb_high_band;
               price_below_low = map2 cell_lt data bb_low_band
           in Some [(''high_band'', FloatSeries bb_high_band),
                    (''mid_band'', FloatSeries bb_mid_band),
                    (''low_band'', FloatSeries bb_low_band),
                    (''width'', FloatSeries bb_width),
                    (''price_above_high'', BoolSeries price_above_high),
                    (''price_below_low'', BoolSeries price_below_low)]))"

section \<open>Signal fusion (multi\_signal\_analyzer.py)\<close>

text \<open>
  Formatted text is kept as the list of its fragments: literal text, a number or a
  cell that an f-string formats, or the message of an exception.
\<close>

datatype piece = Text string | Num real | Cell cell | ErrText py_error

type_synonym ftext = "piece list"

text \<open>
  The three signal dictionaries. The technical dictionary is built by the analyzer
  itself; \<open>signal_score\<close> is a key of its full form only. The on-chain and the social
  dictionary come from the two source analyzers; a field is \<open>None\<close> when the key is absent,
  so that \<open>d.get(k, 0)\<close> and \<open>d[k]\<close> (KeyError) can be told apart.
\<close>

record technical =
  tech_overall_signal :: string
  tech_confidence :: real
  tech_explanation :: ftext
  tech_signal_score :: "real option"

record onchain =
  oc_score :: "real option"

record social =
  so_sentiment :: "string option"
  so_score :: "real option"
  so_agreement :: "string option"

definition get_or :: "'a option \<Rightarrow> 'a \<Rightarrow> 'a" where
  "get_or v d = (case v of None \<Rightarrow> d | Some x \<Rightarrow> x)"

definition item :: "'a option \<Rightarrow> py_error + 'a" where
  "item v = (case v of None \<Rightarrow> Inl KeyError | Some x \<Rightarrow> Inr x)"

subsection \<open>\_analyze\_technical\_indicators\<close>

definition insufficient_technical :: technical where
  "insufficient_technical =
     \<lparr>tech_overall_signal = ''Neutral'', tech_confidence = 50,
      tech_explanation = [Text ''Insufficient price data for technical analysis''],
      tech_signal_score = None\<rparr>"

definition error_technical :: "py_error \<Rightarrow> technical" where
  "error_technical e =
     \<lparr>tech_overall_signal = ''Neutral'', tech_confidence = 50,
      tech_explanation = [Text ''Error in technical analysis: '', ErrText e],
      tech_signal_score = None\<rparr>"

definition set_column :: "frame \<Rightarrow> string \<Rightarrow> series \<Rightarrow> frame" where
  "set_column df c xs =
     df\<lparr>columns := (if c \<in> fst ` set (columns df)
                     then map (\<lambda>(k, v). if k = c then (k, xs) else (k, v)) (columns df)
                     else columns df @ [(c, xs)])\<rparr>"

text \<open>
  The body of the \<open>try\<close> block, lines 146 to 297. It reads the Close column, adds the
  RSI and MACD columns, and then unpacks the dictionary of \<open>calculate_bollinger_bands\<close>
  into three names and the dictionary of \<open>check_ema_crossover\<close> into two. Everything
  after the two tuple assignments (lines 173 to 297, which score the indicators and
  build the full dictionary with \<open>signal_score\<close>) is the parameter \<open>rest\<close>.
\<close>

type_synonym technical_rest =
  "frame \<Rightarrow> (string \<times> string \<times> string) \<Rightarrow> (string \<times> string) \<Rightarrow> py_error + technical"

definition technical_try :: "bands_lib \<Rightarrow> technical_rest \<Rightarrow> frame \<Rightarrow> py_error + technical" where
  "technical_try bands rest price_data =
     bind_err (column price_data ''Close'') (\<lambda>close.
       let delta = diff close;
           gain = map where_gt0 delta;
           loss = map (cell_neg \<circ> where_lt0) delta;
           avg_gain = rolling_mean 14 gain;
           avg_loss = rolling_mean 14 loss;
           rs = map2 cell_div avg_gain avg_loss;
           df1 = set_column price_data ''RSI'' (map rsi_of_rs rs);
           (macd_line, signal_line, histogram) = calculate_macd close 12 26 9;
           df2 = set_column df1 ''MACD'' macd_line;
           df3 = set_column df2 ''MACD_Signal'' signal_line;
           df4 = set_column df3 ''MACD_Hist'' histogram
       in bind_err (unpack3 (calculate_bollinger_bands bands close 20 2)) (\<lambda>bb.
          bind_err (unpack2 (Some (check_ema_crossover close 50 200))) (\<lambda>cross.
            rest df4 bb cross)))"

definition analyze_technical_indicators ::
    "bands_lib \<Rightarrow> technical_rest \<Rightarrow> frame option \<Rightarrow> technical" where
  "analyze_technical_indicators bands rest price_data =
     (case price_data of
        None \<Rightarrow> insufficient_technical
      | Some df \<Rightarrow>
          if len df < 30 then insufficient_technical
          else (case technical_try bands rest df of
                  Inl e \<Rightarrow> error_technical e
                | Inr result \<Rightarrow> result))"

subsection \<open>\_calculate\_combined\_signal\<close>

text \<open>The weights of the three sources for a time frame (lines 329 to 350).\<close>

definition weights :: "string \<Rightarrow> real \<times> real \<times> real" where
  "weights timeframe =
     (if timeframe = ''1h'' then (5 / 10, 2 / 10, 3 / 10)
      else if timeframe = ''1d'' then (4 / 10, 3 / 10, 3 / 10)
      else (3 / 10, 5 / 10, 2 / 10))"

definition technical_score :: "technical \<Rightarrow> real" where
  "technical_score t = get_or (tech_signal_score t) 0"

definition onchain_score :: "onchain \<Rightarrow> real" where
  "onchain_score oc = get_or (oc_score oc) 0 / 10"

definition social_score :: "social \<Rightarrow> real" where
  "social_score so = get_or (so_score so) 0 * 10"

definition combined_score :: "technical \<Rightarrow> onchain \<Rightarrow> social \<Rightarrow> string \<Rightarrow> real" where
  "combined_score t oc so timeframe =
     (case weights timeframe of (w_technical, w_onchain, w_social) \<Rightarrow>
        technical_score t * w_technical + onchain_score oc * w_onchain + social_score so * w_social)"

definition label3 :: "real \<Rightarrow> string" where
  "label3 x = (if x > 3 then ''Bullish'' else if x < - 3 then ''Bearish'' else ''Neutral'')"

definition count_label :: "string \<Rightarrow> string list \<Rightarrow> nat" where
  "count_label l signals = length (filter (\<lambda>s. s = l) signals)"

definition agreement_bonus :: "string list \<Rightarrow> real" where
  "agreement_bonus signals =
     (let bullish_count = count_label ''Bullish'' signals;
          bearish_count = count_label ''Bearish'' signals
      in if bullish_count = 3 \<or> bearish_count = 3 then 20
         else if bullish_count \<ge> 2 \<or> bearish_count \<ge> 2 then 10
         else 0)"

definition upper_char :: "char \<Rightarrow> char" where
  "upper_char c =
     (let n = (of_char c :: nat) in if 97 \<le> n \<and> n \<le> 122 then char_of (n - 32) else c)"

definition upper :: "string \<Rightarrow> string" where
  "upper s = map upper_char s"

fun join :: "ftext \<Rightarrow> ftext list \<Rightarrow> ftext" where
  "join sep [] = []"
| "join sep [x] = x"
| "join sep (x # y # ys) = x @ sep @ join sep (y # ys)"

definition positive_text :: "technical \<Rightarrow> onchain \<Rightarrow> social \<Rightarrow> py_error + ftext list" where
  "positive_text t oc so =
     (let a = (if technical_score t > 0
               then [[Text ''technical indicators (''] @ tech_explanation t @ [Text '')'']] else []);
          b = (if onchain_score oc > 0
               then [[Text ''on-chain data (exchange outflows suggest accumulation)'']] else [])
      in if social_score so > 0
         then bind_err (item (so_agreement so)) (\<lambda>ag.
                Inr (a @ b @ [[Text ''social sentiment ('', Text ag,
                               Text '' agreement across platforms)'']]))
         else Inr (a @ b))"

definition negative_text :: "technical \<Rightarrow> onchain \<Rightarrow> social \<Rightarrow> py_error + ftext list" where
  "negative_text t oc so =
     (let a = (if technical_score t < 0
               then [[Text ''technical indicators (''] @ tech_explanation t @ [Text '')'']] else []);
          b = (if onchain_score oc < 0
               then [[Text ''on-chain data (increasing exchange inflows suggest distribution)'']]
               else [])
      in if social_score so < 0
         then bind_err (item (so_agreement so)) (\<lambda>ag.
                Inr (a @ b @ [[Text ''social sentiment ('', Text ag,
                               Text '' agreement across platforms)'']]))
         else Inr (a @ b))"

definition mixed_text :: "technical \<Rightarrow> onchain \<Rightarrow> social \<Rightarrow> ftext" where
  "mixed_text t oc so =
     [Text ''Mixed signals: '']
     @ (if \<bar>technical_score t\<bar> < 3 then [Text ''Technical indicators are neutral. ''] else [])
     @ (if \<bar>onchain_score oc\<bar> < 3 then [Text ''On-chain metrics show no clear trend. ''] else [])
     @ (if \<bar>social_score so\<bar> < 3 then [Text ''Social sentiment is balanced. ''] else [])"

definition calculate_combined_signal ::
    "technical \<Rightarrow> onchain \<Rightarrow> social \<Rightarrow> string \<Rightarrow> py_error + (real \<times> real \<times> string \<times> ftext)" where
  "calculate_combined_signal t oc so timeframe =
     (let score = combined_score t oc so timeframe;
          prediction = (if score > 2 then ''Bullish'' else if score < - 2 then ''Bearish''
                        else ''Neutral'');
          score_confidence = 50 + \<bar>score\<bar> * 5;
          signals = [label3 (technical_score t), label3 (onchain_score oc),
                     label3 (social_score so)];
          combined_confidence = min 100 (score_confidence + agreement_bonus signals);
          head = [Text (upper timeframe), Text '' Forecast: '', Text prediction, Text '' with '',
                  Num combined_confidence, Text ''% confidence. '']
      in if prediction = ''Bullish'' then
           bind_err (positive_text t oc so) (\<lambda>ts.
             Inr (score, combined_confidence, prediction,
                  head @ [Text ''Positive signals from ''] @ join [Text '', ''] ts))
         else if prediction = ''Bearish'' then
           bind_err (negative_text t oc so) (\<lambda>ts.
             Inr (score, combined_confidence, prediction,
                  head @ [Text ''Negative signals from ''] @ join [Text '', ''] ts))
         else Inr (score, combined_confidence, prediction, head @ mixed_text t oc so))"

section \<open>The simulated sources (onchain\_data.py, social\_sentiment.py, news\_scraper.py)\<close>

subsection \<open>The generator of module random, the clock, and the state of the process\<close>

text \<open>
  The simulations draw from the generator of Python's module \<open>random\<close>, of which the
  process has one. The generator is not part of the repository: its operations are the
  fields of \<open>random_lib\<close>, over a type \<open>'g\<close> of generator states. \<open>random.seed(s)\<close> replaces
  the state by one that depends on \<open>s\<close> only, and every draw returns a value and the
  next state. \<open>random_float\<close> is \<open>random.random()\<close>. \<open>choice\<close> is given the length of the
  sequence and returns a position in it, which is taken modulo the length.
\<close>

record 'g random_lib =
  seed :: "string \<Rightarrow> 'g"
  randrange :: "int \<Rightarrow> int \<Rightarrow> 'g \<Rightarrow> int \<times> 'g"
  randint :: "int \<Rightarrow> int \<Rightarrow> 'g \<Rightarrow> int \<times> 'g"
  random_float :: "'g \<Rightarrow> real \<times> 'g"
  uniform :: "real \<Rightarrow> real \<Rightarrow> 'g \<Rightarrow> real \<times> 'g"
  choice :: "nat \<Rightarrow> 'g \<Rightarrow> nat \<times> 'g"

text \<open>
  Every \<open>datetime.now()\<close> of the analysis is a reading of the clock at its own place in
  the code. \<open>now\<close> gives the time stamp read at a place, and \<open>ymd\<close> is
  \<open>strftime('%Y-%m-%d')\<close>, which belongs to the standard library.
\<close>

datatype site =
    MultiLookup | MultiAnalysis | MultiStore
  | OnchainLookup | WhaleSeed | WalletSeed | OnchainStore
  | CombinedLookup | CombinedStore
  | TwitterLookup | TwitterSeed | TwitterStore
  | RedditLookup | RedditSeed | RedditStore
  | NewsSeed
  | ScraperLookup | ScraperSeed | ScraperNow | ScraperStore

record clock =
  now :: "site \<Rightarrow> real"
  ymd :: "real \<Rightarrow> string"

text \<open>
  An article of \<open>get_crypto_news\<close>: the keys that depend on the draws. The title is kept
  as its position in the list of seven titles of its kind; \<open>url\<close> and \<open>summary\<close> are
  fixed by the symbol, the kind and the position of the article.
\<close>

record article =
  art_title :: nat
  art_kind :: string
  art_source :: string
  art_published_at :: real
  art_sentiment :: string
  art_sentiment_score :: real

text \<open>
  The state that belongs to modules and not to an analyzer: the state of the generator
  and the dictionary \<open>NEWS_CACHE\<close> of news\_scraper.py.
\<close>

record 'g globals =
  rng :: 'g
  NEWS_CACHE :: "string \<rightharpoonup> real \<times> article list"

definition CACHE_TTL :: real where
  "CACHE_TTL = 3600"

text \<open>\<open>int(x)\<close> of a float: the fraction is cut off.\<close>

definition py_trunc :: "real \<Rightarrow> int" where
  "py_trunc x = (if x \<ge> 0 then \<lfloor>x\<rfloor> else \<lceil>x\<rceil>)"

text \<open>\<open>str(n)\<close> of a natural number.\<close>

fun str :: "nat \<Rightarrow> string" where
  "str n = (if n < 10 then [char_of (48 + n)] else str (n div 10) @ [char_of (48 + n mod 10)])"

declare str.simps [simp del]

subsection \<open>OnChainAnalyzer\<close>

text \<open>
  Of the dictionary that \<open>get_onchain_analysis\<close> returns, the record \<open>onchain\<close> keeps the
  key \<open>score\<close>, which is the one that the fusion reads. The state of an
  \<open>OnChainAnalyzer\<close> is its cache and the time to live; \<open>supported_chains\<close> is never
  assigned after the constructor and enters the key \<open>blockchain\<close> only.
\<close>

record OnChainAnalyzer =
  oc_cache :: "string \<rightharpoonup> real \<times> onchain"
  oc_cache_ttl :: real

definition oc_init :: OnChainAnalyzer where
  "oc_init = \<lparr>oc_cache = Map.empty, oc_cache_ttl = 3600\<rparr>"

definition oc_get_cached_data :: "OnChainAnalyzer \<Rightarrow> real \<Rightarrow> string \<Rightarrow> onchain option" where
  "oc_get_cached_data self t cache_key =
     (case oc_cache self cache_key of
        None \<Rightarrow> None
      | Some (timestamp, data) \<Rightarrow> if t - timestamp < oc_cache_ttl self then Some data else None)"

definition oc_set_cache :: "OnChainAnalyzer \<Rightarrow> real \<Rightarrow> string \<Rightarrow> onchain \<Rightarrow> OnChainAnalyzer" where
  "oc_set_cache self t cache_key data = self\<lparr>oc_cache := (oc_cache self)(cache_key \<mapsto> (t, data))\<rparr>"

record whale =
  wh_large_inflows :: int
  wh_large_outflows :: int
  wh_exchange_inflows :: int
  wh_exchange_outflows :: int
  wh_inflow_outflow_ratio :: real

record wallet =
  wl_transactions_per_day :: int
  wl_active_addresses :: int
  wl_new_addresses :: int
  wl_transaction_volume :: int
  wl_avg_transaction_size :: int

definition days_of :: "string \<Rightarrow> int" where
  "days_of timeframe = (if timeframe = ''24h'' then 1 else if timeframe = ''7d'' then 7 else 30)"

text \<open>\<open>days ** 0.8\<close>; the power of 1 is 1.\<close>

definition day_multiplier_of :: "int \<Rightarrow> real" where
  "day_multiplier_of days = (if days = 1 then 1 else real_of_int days powr (8 / 10))"

text \<open>
  \<open>_simulate_whale_activity\<close> and \<open>_simulate_wallet_activity\<close> seed the generator and draw
  from it; they return their dictionary and the state in which they leave the
  generator. The second one divides by the number of transactions, which raises when
  the number is 0; the last draw comes after this division.
\<close>

definition simulate_whale_activity ::
    "'g random_lib \<Rightarrow> clock \<Rightarrow> string \<Rightarrow> string \<Rightarrow> whale \<times> 'g" where
  "simulate_whale_activity lib clk symbol timeframe =
     (let g0 = seed lib (symbol @ ''_'' @ timeframe @ ''_'' @ ymd clk (now clk WhaleSeed));
          activity_multiplier = (if symbol \<in> set [''BTC'', ''ETH''] then 5 / 2 else 1 :: real);
          days = days_of timeframe;
          (a, g1) = randrange lib 2 8 g0;
          large_inflows = max 1 (py_trunc (real_of_int a * activity_multiplier));
          (b, g2) = randrange lib 2 7 g1;
          large_outflows = max 1 (py_trunc (real_of_int b * activity_multiplier));
          volatility_factor = (if symbol \<in> set [''SHIB'', ''DOGE'', ''PEPE''] then 2 else 1 :: real);
          (c, g3) = randrange lib 5 15 g2;
          exchange_inflows =
            max 1 (py_trunc (real_of_int c * activity_multiplier * volatility_factor));
          (d, g4) = randrange lib 4 12 g3;
          exchange_outflows =
            max 1 (py_trunc (real_of_int d * activity_multiplier * volatility_factor));
          bullish_bias = (if symbol \<in> set [''BTC'', ''ETH'', ''SOL''] then 2 / 10 else - (1 / 10) :: real);
          (u, g5) = random_float lib g4;
          base_ratio = 1 + bullish_bias + (u - 5 / 10) * (5 / 10);
          inflow_outflow_ratio = max (3 / 10) (min 2 base_ratio)
      in (\<lparr>wh_large_inflows = large_inflows * days, wh_large_outflows = large_outflows * days,
           wh_exchange_inflows = exchange_inflows * days,
           wh_exchange_outflows = exchange_outflows * days,
           wh_inflow_outflow_ratio = inflow_outflow_ratio\<rparr>, g5))"

definition simulate_wallet_activity ::
    "'g random_lib \<Rightarrow> clock \<Rightarrow> string \<Rightarrow> string \<Rightarrow> (py_error + wallet) \<times> 'g" where
  "simulate_wallet_activity lib clk symbol timeframe =
     (let g0 = seed lib (symbol @ ''_'' @ timeframe @ ''_'' @ ymd clk (now clk WalletSeed));
          popularity_factor =
            (if symbol \<in> set [''BTC'', ''ETH''] then 10
             else if symbol \<in> set [''SOL'', ''MATIC'', ''ADA'', ''DOT''] then 5 else 1 :: real);
          days = days_of timeframe;
          day_multiplier = day_multiplier_of days;
          (a, g1) = randrange lib 10000 50000 g0;
          transactions_per_day = py_trunc (real_of_int a * popularity_factor);
          (b, g2) = randrange lib 5000 30000 g1;
          active_addresses =
            py_trunc (real_of_int b * popularity_factor * (7 / 10 + 3 / 10 * day_multiplier));
          (u, g3) = uniform lib (1 / 100) (5 / 100) g2;
          new_addresses = py_trunc (real_of_int active_addresses * u * day_multiplier);
          (base_price, g4) =
            (if symbol = ''BTC'' then (30000, g3)
             else if symbol = ''ETH'' then (2000, g3) else uniform lib (1 / 10) 50 g3);
          (v, g5) = uniform lib (1 / 10) (3 / 10) g4;
          transaction_volume =
            py_trunc (real_of_int transactions_per_day * base_price * v * day_multiplier)
      in if transactions_per_day = 0 then (Inl ZeroDivisionError, g5)
         else (let (w, g6) = uniform lib (8 / 10) (12 / 10) g5;
                   avg_transaction_size =
                     py_trunc (real_of_int transaction_volume / real_of_int transactions_per_day * w)
               in (Inr \<lparr>wl_transactions_per_day = transactions_per_day,
                         wl_active_addresses = active_addresses,
                         wl_new_addresses = new_addresses,
                         wl_transaction_volume = transaction_volume,
                         wl_avg_transaction_size = avg_transaction_size\<rparr>, g6)))"

text \<open>
  The body of the \<open>try\<close> block of \<open>get_onchain_analysis\<close>, lines 155 to 194, with the
  state in which it leaves the generator. The second simulation seeds the generator
  again, so the state that the first one leaves is overwritten.
\<close>

definition onchain_try ::
    "'g random_lib \<Rightarrow> clock \<Rightarrow> string \<Rightarrow> string \<Rightarrow> (py_error + onchain) \<times> 'g" where
  "onchain_try lib clk symbol timeframe =
     (let (whale_data, g1) = simulate_whale_activity lib clk symbol timeframe;
          (wallet_result, g2) = simulate_wallet_activity lib clk symbol timeframe
      in (bind_err wallet_result (\<lambda>wallet_data.
            if wl_active_addresses wallet_data = 0 then Inl ZeroDivisionError
            else
              (let address_growth_factor =
                     real_of_int (wl_new_addresses wallet_data)
                       / real_of_int (wl_active_addresses wallet_data);
                   whale_score =
                     max (- 80) (min 80
                       (real_of_int (wh_exchange_outflows whale_data - wh_exchange_inflows whale_data)
                          / real_of_int (max (wh_exchange_inflows whale_data) 1) * 50));
                   wallet_score = max (- 70) (min 70 ((address_growth_factor - 15 / 1000) * 1000));
                   score = max (- 100) (min 100 (whale_score * (6 / 10) + wallet_score * (4 / 10)))
               in Inr \<lparr>oc_score = Some score\<rparr>)), g2))"

text \<open>
  \<open>get_onchain_analysis\<close> returns the dictionary, the analyzer and the state of the
  process after the call. A stored dictionary has entries, so \<open>if cached_data:\<close> holds
  for every hit. The dictionary of the handler has the score 0 and is not stored.
\<close>

definition get_onchain_analysis ::
    "'g random_lib \<Rightarrow> clock \<Rightarrow> OnChainAnalyzer \<Rightarrow> 'g globals \<Rightarrow> string \<Rightarrow> string
     \<Rightarrow> onchain \<times> OnChainAnalyzer \<times> 'g globals" where
  "get_onchain_analysis lib clk self glob symbol timeframe =
     (let cache_key = ''onchain_'' @ symbol @ ''_'' @ timeframe
      in case oc_get_cached_data self (now clk OnchainLookup) cache_key of
           Some cached_data \<Rightarrow> (cached_data, self, glob)
         | None \<Rightarrow>
             (case onchain_try lib clk symbol timeframe of
                (Inr result, g) \<Rightarrow>
                  (result, oc_set_cache self (now clk OnchainStore) cache_key result,
                   glob\<lparr>rng := g\<rparr>)
              | (Inl e, g) \<Rightarrow> (\<lparr>oc_score = Some 0\<rparr>, self, glob\<lparr>rng := g\<rparr>)))"

subsection \<open>get\_crypto\_news and analyze\_news\_sentiment (news\_scraper.py)\<close>

definition sources :: "string list" where
  "sources = [''CoinDesk'', ''CoinTelegraph'', ''Bitcoin.com'', ''Decrypt'', ''The Block'',
              ''Crypto Briefing'', ''CryptoSlate'']"

text \<open>The body of the loop of \<open>get_crypto_news\<close>, lines 91 to 120, for each item of the range.\<close>

fun make_articles :: "'g random_lib \<Rightarrow> real \<Rightarrow> nat list \<Rightarrow> 'g \<Rightarrow> article list \<times> 'g" where
  "make_articles lib t [] g = ([], g)"
| "make_articles lib t (i # items) g =
     (case randint lib 1 48 g of (hours_ago, g1) \<Rightarrow>
      case choice lib 3 g1 of (k, g2) \<Rightarrow>
      case choice lib 7 g2 of (title, g3) \<Rightarrow>
      case (if [''bullish'', ''bearish'', ''neutral''] ! (k mod 3) = ''bullish''
              then uniform lib (3 / 10) (9 / 10) g3
            else if [''bullish'', ''bearish'', ''neutral''] ! (k mod 3) = ''bearish''
              then uniform lib (- (9 / 10)) (- (3 / 10)) g3
            else uniform lib (- (2 / 10)) (2 / 10) g3) of (sentiment_score, g4) \<Rightarrow>
      case choice lib 7 g4 of (source, g5) \<Rightarrow>
      case make_articles lib t items g5 of (rest, g6) \<Rightarrow>
        (\<lparr>art_title = title mod 7,
          art_kind = [''bullish'', ''bearish'', ''neutral''] ! (k mod 3),
          art_source = sources ! (source mod 7),
          art_published_at = t - 3600 * real_of_int hours_ago,
          art_sentiment =
            (if sentiment_score > 2 / 10 then ''positive''
             else if sentiment_score < - (2 / 10) then ''negative'' else ''neutral''),
          art_sentiment_score = sentiment_score\<rparr> # rest, g6))"

text \<open>
  \<open>get_crypto_news\<close> returns the articles and the state of the process after the call.
  An entry of \<open>NEWS_CACHE\<close> that is fresh is returned whatever it holds. The draws
  raise nothing, so the handler, which returns the empty list, has no case.
\<close>

definition get_crypto_news ::
    "'g random_lib \<Rightarrow> clock \<Rightarrow> 'g globals \<Rightarrow> string \<Rightarrow> nat \<Rightarrow> article list \<times> 'g globals" where
  "get_crypto_news lib clk glob symbol max_articles =
     (let cache_key = ''news_'' @ symbol @ ''_'' @ str max_articles;
          fresh = (case NEWS_CACHE glob cache_key of
                     None \<Rightarrow> None
                   | Some (timestamp, data) \<Rightarrow>
                       if now clk ScraperLookup - timestamp < CACHE_TTL then Some data else None)
      in case fresh of
           Some data \<Rightarrow> (data, glob)
         | None \<Rightarrow>
             (let g0 = seed lib (symbol @ ''_news_'' @ ymd clk (now clk ScraperSeed));
                  (articles, g1) = make_articles lib (now clk ScraperNow) [0..<max_articles] g0
              in (articles,
                  glob\<lparr>rng := g1,
                       NEWS_CACHE := (NEWS_CACHE glob)(cache_key \<mapsto> (now clk ScraperStore, articles))\<rparr>)))"

text \<open>
  The three labels of a sentiment score (social\_sentiment.py, lines 58 to 63, 108 to 113
  and 175 to 180; news\_scraper.py, lines 174 to 179).
\<close>

definition sentiment_of :: "real \<Rightarrow> string" where
  "sentiment_of sentiment_score =
     (if sentiment_score > 2 / 10 then ''Positive''
      else if sentiment_score < - (2 / 10) then ''Negative'' else ''Neutral'')"

record news_sentiment =
  ns_sentiment :: string
  ns_score :: real

definition analyze_news_sentiment :: "article list \<Rightarrow> news_sentiment" where
  "analyze_news_sentiment articles =
     (if articles = [] then \<lparr>ns_sentiment = ''Neutral'', ns_score = 0\<rparr>
      else (let total_score = sum_list (map art_sentiment_score articles);
                avg_score = total_score / real (length articles)
            in \<lparr>ns_sentiment = sentiment_of avg_score, ns_score = avg_score\<rparr>))"

subsection \<open>SocialSentimentAnalyzer\<close>

text \<open>
  The cache of a \<open>SocialSentimentAnalyzer\<close> holds the dictionaries of the Twitter and of
  the Reddit simulation, of which \<open>channel\<close> keeps the keys \<open>sentiment\<close> and
  \<open>sentiment_score\<close> that are read later, and the combined dictionaries, of which the
  record \<open>social\<close> keeps the keys that the fusion reads. A dictionary of one kind has no
  key \<open>sentiment_score\<close>, \<open>score\<close> or \<open>agreement\<close> of the other kind.
\<close>

record channel =
  ch_sentiment :: string
  ch_sentiment_score :: real

datatype sentiment_entry = Channel channel | Combined social

record SocialSentimentAnalyzer =
  sa_cache :: "string \<rightharpoonup> real \<times> sentiment_entry"
  sa_cache_ttl :: real

definition sa_init :: SocialSentimentAnalyzer where
  "sa_init = \<lparr>sa_cache = Map.empty, sa_cache_ttl = 3600\<rparr>"

definition sa_get_cached_data ::
    "SocialSentimentAnalyzer \<Rightarrow> real \<Rightarrow> string \<Rightarrow> sentiment_entry option" where
  "sa_get_cached_data self t cache_key =
     (case sa_cache self cache_key of
        None \<Rightarrow> None
      | Some (timestamp, data) \<Rightarrow> if t - timestamp < sa_cache_ttl self then Some data else None)"

definition sa_set_cache ::
    "SocialSentimentAnalyzer \<Rightarrow> real \<Rightarrow> string \<Rightarrow> sentiment_entry \<Rightarrow> SocialSentimentAnalyzer" where
  "sa_set_cache self t cache_key data = self\<lparr>sa_cache := (sa_cache self)(cache_key \<mapsto> (t, data))\<rparr>"

fun sentiment_score_key :: "sentiment_entry \<Rightarrow> py_error + real" where
  "sentiment_score_key (Channel c) = Inr (ch_sentiment_score c)"
| "sentiment_score_key (Combined s) = Inl KeyError"

fun as_social :: "sentiment_entry \<Rightarrow> social" where
  "as_social (Combined s) = s"
| "as_social (Channel c) =
     \<lparr>so_sentiment = Some (ch_sentiment c), so_score = None, so_agreement = None\<rparr>"

text \<open>
  The two simulations. The counts of tweets, posts and comments are computed from the
  draws and are not read again; the draws are made. Neither simulation raises, so the
  handlers of \<open>get_twitter_sentiment\<close> and \<open>get_reddit_sentiment\<close>, which answer when
  the simulation raises, have no case.
\<close>

definition simulate_twitter_sentiment :: "'g random_lib \<Rightarrow> clock \<Rightarrow> string \<Rightarrow> channel \<times> 'g" where
  "simulate_twitter_sentiment lib clk symbol =
     (let g0 = seed lib (symbol @ ''_twitter_'' @ ymd clk (now clk TwitterSeed));
          popularity_factor =
            (if symbol \<in> set [''BTC'', ''ETH''] then 2 / 10
             else if symbol \<in> set [''SOL'', ''BNB'', ''MATIC''] then 1 / 10 else 0 :: real);
          (u, g1) = uniform lib (- (5 / 10)) (5 / 10) g0;
          base_sentiment = u + popularity_factor;
          sentiment_score = max (- 1) (min 1 base_sentiment);
          (tweets, g2) = randrange lib 50 200 g1
      in (\<lparr>ch_sentiment = sentiment_of sentiment_score, ch_sentiment_score = sentiment_score\<rparr>, g2))"

definition simulate_reddit_sentiment :: "'g random_lib \<Rightarrow> clock \<Rightarrow> string \<Rightarrow> channel \<times> 'g" where
  "simulate_reddit_sentiment lib clk symbol =
     (let g0 = seed lib (symbol @ ''_reddit_'' @ ymd clk (now clk RedditSeed));
          (sentiment_score, g1) = uniform lib (- (8 / 10)) (8 / 10) g0;
          (posts, g2) = randrange lib 10 50 g1;
          (comments, g3) = randrange lib 5 20 g2
      in (\<lparr>ch_sentiment = sentiment_of sentiment_score, ch_sentiment_score = sentiment_score\<rparr>, g3))"

definition get_twitter_sentiment ::
    "'g random_lib \<Rightarrow> clock \<Rightarrow> SocialSentimentAnalyzer \<Rightarrow> 'g globals \<Rightarrow> string
     \<Rightarrow> sentiment_entry \<times> SocialSentimentAnalyzer \<times> 'g globals" where
  "get_twitter_sentiment lib clk self glob symbol =
     (let cache_key = ''twitter_sentiment_'' @ symbol
      in case sa_get_cached_data self (now clk TwitterLookup) cache_key of
           Some cached_data \<Rightarrow> (cached_data, self, glob)
         | None \<Rightarrow>
             (let (sentiment_data, g) = simulate_twitter_sentiment lib clk symbol
              in (Channel sentiment_data,
                  sa_set_cache self (now clk TwitterStore) cache_key (Channel sentiment_data),
                  glob\<lparr>rng := g\<rparr>)))"

definition get_reddit_sentiment ::
    "'g random_lib \<Rightarrow> clock \<Rightarrow> SocialSentimentAnalyzer \<Rightarrow> 'g globals \<Rightarrow> string
     \<Rightarrow> sentiment_entry \<times> SocialSentimentAnalyzer \<times> 'g globals" where
  "get_reddit_sentiment lib clk self glob symbol =
     (let cache_key = ''reddit_sentiment_'' @ symbol
      in case sa_get_cached_data self (now clk RedditLookup) cache_key of
           Some cached_data \<Rightarrow> (cached_data, self, glob)
         | None \<Rightarrow>
             (let (sentiment_data, g) = simulate_reddit_sentiment lib clk symbol
              in (Channel sentiment_data,
                  sa_set_cache self (now clk RedditStore) cache_key (Channel sentiment_data),
                  glob\<lparr>rng := g\<rparr>)))"

text \<open>
  \<open>_get_news_sentiment\<close>: the sentiment of the articles of \<open>get_crypto_news\<close> when there
  are any, and a simulated one otherwise.
\<close>

definition get_news_sentiment ::
    "'g random_lib \<Rightarrow> clock \<Rightarrow> 'g globals \<Rightarrow> string \<Rightarrow> news_sentiment \<times> 'g globals" where
  "get_news_sentiment lib clk glob symbol =
     (let (news, glob1) = get_crypto_news lib clk glob symbol 10
      in if news \<noteq> [] then (analyze_news_sentiment news, glob1)
         else (let g0 = seed lib (symbol @ ''_news_'' @ ymd clk (now clk NewsSeed));
                   (sentiment_score, g1) = uniform lib (- (7 / 10)) (7 / 10) g0;
                   (article_count, g2) = randint lib 5 20 g1
               in (\<lparr>ns_sentiment = sentiment_of sentiment_score, ns_score = sentiment_score\<rparr>,
                   glob1\<lparr>rng := g2\<rparr>)))"

text \<open>
  The body of the \<open>try\<close> block of \<open>get_combined_social_sentiment\<close> after the three
  sources have answered, lines 268 to 322.
\<close>

definition combined_try ::
    "sentiment_entry \<Rightarrow> sentiment_entry \<Rightarrow> news_sentiment \<Rightarrow> py_error + social" where
  "combined_try twitter_data reddit_data news_data =
     bind_err (sentiment_score_key twitter_data) (\<lambda>twitter_score.
     bind_err (sentiment_score_key reddit_data) (\<lambda>reddit_score.
       (let weighted_score =
              twitter_score * (4 / 10) + reddit_score * (3 / 10) + ns_score news_data * (3 / 10);
            scores = [twitter_score, reddit_score, ns_score news_data];
            all_positive = list_all (\<lambda>score. score > 1 / 10) scores;
            all_negative = list_all (\<lambda>score. score < - (1 / 10)) scores;
            strong_agreement = (all_positive \<or> all_negative);
            moderate_agreement =
              (length (filter (\<lambda>score. score > 1 / 10) scores) \<ge> 2
               \<or> length (filter (\<lambda>score. score < - (1 / 10)) scores) \<ge> 2);
            sentiment = (if weighted_score > 2 / 10 then ''Bullish''
                         else if weighted_score < - (2 / 10) then ''Bearish'' else ''Neutral'')
        in Inr \<lparr>so_sentiment = Some sentiment, so_score = Some weighted_score,
                so_agreement = Some (if strong_agreement then ''Strong''
                                     else if moderate_agreement then ''Moderate'' else ''Weak'')\<rparr>)))"

definition get_combined_social_sentiment ::
    "'g random_lib \<Rightarrow> clock \<Rightarrow> SocialSentimentAnalyzer \<Rightarrow> 'g globals \<Rightarrow> string
     \<Rightarrow> social \<times> SocialSentimentAnalyzer \<times> 'g globals" where
  "get_combined_social_sentiment lib clk self glob symbol =
     (let cache_key = ''combined_sentiment_'' @ symbol
      in case sa_get_cached_data self (now clk CombinedLookup) cache_key of
           Some cached_data \<Rightarrow> (as_social cached_data, self, glob)
         | None \<Rightarrow>
             (let (twitter_data, self1, glob1) = get_twitter_sentiment lib clk self glob symbol;
                  (reddit_data, self2, glob2) = get_reddit_sentiment lib clk self1 glob1 symbol;
                  (news_data, glob3) = get_news_sentiment lib clk glob2 symbol
              in case combined_try twitter_data reddit_data news_data of
                   Inr result \<Rightarrow>
                     (result, sa_set_cache self2 (now clk CombinedStore) cache_key (Combined result),
                      glob3)
                 | Inl e \<Rightarrow>
                     (\<lparr>so_sentiment = Some ''Neutral'', so_score = Some 0,
                       so_agreement = Some ''Unknown''\<rparr>, self2, glob3)))"

section \<open>analyze\_all\_signals and the caches (multi\_signal\_analyzer.py)\<close>

text \<open>
  The result dictionary. The dictionary of the error branch has no score, no signals
  and no analysis time, and carries the error instead.
\<close>

record analysis_result =
  res_symbol :: string
  res_timeframe :: string
  res_prediction :: string
  res_confidence :: real
  res_score :: "real option"
  res_explanation :: ftext
  res_agreement :: string
  res_signals :: "(technical \<times> onchain \<times> social) option"
  res_analysis_time :: "real option"
  res_error :: "py_error option"

text \<open>
  The state of a \<open>MultiSignalAnalyzer\<close>: the dictionary \<open>self.cache\<close> from a key to the
  time of the write and the stored result, \<open>self.cache_ttl\<close>, and the two analyzers that
  the constructor creates and the object owns. The routes module creates one
  \<open>MultiSignalAnalyzer\<close> when it is loaded and every request uses it.
\<close>

record analyzer =
  cache :: "string \<rightharpoonup> real \<times> analysis_result"
  cache_ttl :: real
  onchain_analyzer :: OnChainAnalyzer
  sentiment_analyzer :: SocialSentimentAnalyzer

definition init :: analyzer where
  "init = \<lparr>cache = Map.empty, cache_ttl = 1800, onchain_analyzer = oc_init,
           sentiment_analyzer = sa_init\<rparr>"

definition get_cached_data :: "analyzer \<Rightarrow> real \<Rightarrow> string \<Rightarrow> analysis_result option" where
  "get_cached_data self t cache_key =
     (case cache self cache_key of
        None \<Rightarrow> None
      | Some (timestamp, data) \<Rightarrow> if t - timestamp < cache_ttl self then Some data else None)"

definition set_cache :: "analyzer \<Rightarrow> real \<Rightarrow> string \<Rightarrow> analysis_result \<Rightarrow> analyzer" where
  "set_cache self t cache_key data = self\<lparr>cache := (cache self)(cache_key \<mapsto> (t, data))\<rparr>"

text \<open>Lines 80 to 95: the three labels that are compared, and the agreement level.\<close>

definition source_signals :: "technical \<Rightarrow> real \<Rightarrow> string \<Rightarrow> string list" where
  "source_signals t oc_raw sentiment =
     [tech_overall_signal t,
      if oc_raw > 20 then ''Bullish'' else if oc_raw < - 20 then ''Bearish'' else ''Neutral'',
      sentiment]"

definition agreement_level :: "string list \<Rightarrow> string" where
  "agreement_level signals =
     (let bullish_count = count_label ''Bullish'' signals;
          bearish_count = count_label ''Bearish'' signals
      in if bullish_count = 3 \<or> bearish_count = 3 then ''Strong''
         else if bullish_count \<ge> 2 \<or> bearish_count \<ge> 2 then ''Moderate''
         else ''Weak'')"

definition error_result :: "string \<Rightarrow> string \<Rightarrow> py_error \<Rightarrow> analysis_result" where
  "error_result symbol timeframe e =
     \<lparr>res_symbol = symbol, res_timeframe = timeframe, res_prediction = ''Neutral'',
      res_confidence = 50, res_score = None,
      res_explanation = [Text ''Error in analysis: '', ErrText e],
      res_agreement = ''Unknown'', res_signals = None, res_analysis_time = None,
      res_error = Some e\<rparr>"

text \<open>
  Lines 74 to 111: what the \<open>try\<close> block of \<open>analyze_all_signals\<close> does with the three
  dictionaries once it has them.
\<close>

definition fuse ::
    "real \<Rightarrow> string \<Rightarrow> string \<Rightarrow> technical \<Rightarrow> onchain \<Rightarrow> social \<Rightarrow> py_error + analysis_result" where
  "fuse t_analysis symbol timeframe t oc so =
     bind_err (calculate_combined_signal t oc so timeframe)
       (\<lambda>(score, combined_confidence, prediction, explanation).
     bind_err (item (oc_score oc)) (\<lambda>oc_raw.
     bind_err (item (so_sentiment so)) (\<lambda>sentiment.
       Inr \<lparr>res_symbol = symbol, res_timeframe = timeframe, res_prediction = prediction,
            res_confidence = combined_confidence, res_score = Some score,
            res_explanation = explanation,
            res_agreement = agreement_level (source_signals t oc_raw sentiment),
            res_signals = Some (t, oc, so), res_analysis_time = Some t_analysis,
            res_error = None\<rparr>)))"

text \<open>
  The body of the \<open>try\<close> block, lines 64 to 111: the technical analysis, the two calls
  through \<open>self.onchain_analyzer\<close> and \<open>self.sentiment_analyzer\<close>, and the fusion. It
  returns the result or the exception, together with the analyzer and the state of the
  process as the two calls leave them.
\<close>

definition analysis_try ::
    "bands_lib \<Rightarrow> technical_rest \<Rightarrow> 'g random_lib \<Rightarrow> clock \<Rightarrow> analyzer \<Rightarrow> 'g globals
     \<Rightarrow> string \<Rightarrow> frame option \<Rightarrow> string
     \<Rightarrow> (py_error + analysis_result) \<times> analyzer \<times> 'g globals" where
  "analysis_try bands rest lib clk self glob symbol price_data timeframe =
     (let t = analyze_technical_indicators bands rest price_data;
          onchain_timeframe = (if timeframe = ''1h'' \<or> timeframe = ''1d'' then ''24h'' else ''7d'');
          (oc, oca, glob1) =
            get_onchain_analysis lib clk (onchain_analyzer self) glob symbol onchain_timeframe;
          (so, sa, glob2) =
            get_combined_social_sentiment lib clk (sentiment_analyzer self) glob1 symbol
      in (fuse (now clk MultiAnalysis) symbol timeframe t oc so,
          self\<lparr>onchain_analyzer := oca, sentiment_analyzer := sa\<rparr>, glob2))"

text \<open>
  \<open>analyze_all_signals\<close> returns the result, the analyzer after the call and the state
  of the process after the call. A stored result is a dictionary with entries, so
  \<open>if cached_data:\<close> holds for every hit.
\<close>

definition analyze_all_signals ::
    "bands_lib \<Rightarrow> technical_rest \<Rightarrow> 'g random_lib \<Rightarrow> clock \<Rightarrow> analyzer \<Rightarrow> 'g globals
     \<Rightarrow> string \<Rightarrow> frame option \<Rightarrow> string \<Rightarrow> analysis_result \<times> analyzer \<times> 'g globals" where
  "analyze_all_signals bands rest lib clk self glob symbol price_data timeframe =
     (let cache_key = ''multi_signal_'' @ symbol @ ''_'' @ timeframe
      in case get_cached_data self (now clk MultiLookup) cache_key of
           Some cached_data \<Rightarrow> (cached_data, self, glob)
         | None \<Rightarrow>
             (case analysis_try bands rest lib clk self glob symbol price_data timeframe of
                (Inl e, self1, glob1) \<Rightarrow> (error_result symbol timeframe e, self1, glob1)
              | (Inr result, self1, glob1) \<Rightarrow>
                  (result, set_cache self1 (now clk MultiStore) cache_key result, glob1)))"

section \<open>Feature generator and predictor (enhanced\_ml.py)\<close>

subsection \<open>generate\_features\<close>

text \<open>
  Lines 31 to 39: each required column that the table lacks is added, Volume as a
  column of zeros and every other one as a copy of Close. Reading Close raises KeyError
  when the table has no such column.
\<close>

definition required_cols :: "string list" where
  "required_cols = [''Open'', ''High'', ''Low'', ''Close'', ''Volume'']"

fun add_missing :: "frame \<Rightarrow> string list \<Rightarrow> py_error + frame" where
  "add_missing data [] = Inr data"
| "add_missing data (col # cols) =
     (if col \<in> fst ` set (columns data) then add_missing data cols
      else if col = ''Volume''
        then add_missing (set_column data col (replicate (len data) (Some 0))) cols
      else bind_err (column data ''Close'') (\<lambda>close.
             add_missing (set_column data col close) cols))"

text \<open>
  Modelled from the spec: the three \<open>fillna\<close> calls of line 118 belong to pandas. The spec
  has the undefined cells back-filled, then forward-filled, then zero-filled:
  \<open>fillna(method='bfill')\<close> gives a NaN the next defined value below it,
  \<open>fillna(method='ffill')\<close> the last defined value above it, and \<open>fillna(0)\<close> puts 0 for
  what is left. Each works column by column.
\<close>

fun bfill :: "series \<Rightarrow> series" where
  "bfill [] = []"
| "bfill (Some v # xs) = Some v # bfill xs"
| "bfill (None # xs) = (case bfill xs of [] \<Rightarrow> [None] | y # ys \<Rightarrow> y # y # ys)"

fun ffill_from :: "cell \<Rightarrow> series \<Rightarrow> series" where
  "ffill_from prev [] = []"
| "ffill_from prev (Some v # xs) = Some v # ffill_from (Some v) xs"
| "ffill_from prev (None # xs) = prev # ffill_from prev xs"

definition ffill :: "series \<Rightarrow> series" where
  "ffill xs = ffill_from None xs"

definition fill_column :: "series \<Rightarrow> series" where
  "fill_column xs = map (fillna 0) (ffill (bfill xs))"

definition map_columns :: "(series \<Rightarrow> series) \<Rightarrow> frame \<Rightarrow> frame" where
  "map_columns f df = df\<lparr>columns := map (\<lambda>(k, xs). (k, f xs)) (columns df)\<rparr>"

text \<open>
  Lines 41 to 115 compute the indicator columns with the classes of the library \<open>ta\<close>
  and the engineered columns from them. The library is not part of the repository:
  the whole stage is the parameter \<open>features\<close>, which returns the table with the added
  columns or raises. When anything in the \<open>try\<close> block raises, the function logs the
  error and returns its argument.
\<close>

type_synonym feature_stage = "frame \<Rightarrow> py_error + frame"

definition generate_features :: "feature_stage \<Rightarrow> frame \<Rightarrow> frame" where
  "generate_features features df =
     (case bind_err (add_missing df required_cols) features of
        Inl e \<Rightarrow> df
      | Inr data \<Rightarrow> map_columns fill_column data)"

definition no_nan :: "frame \<Rightarrow> bool" where
  "no_nan df = list_all (\<lambda>(k, xs). None \<notin> set xs) (columns df)"

subsection \<open>rule\_based\_prediction\<close>

text \<open>
  Position access on a series (a negative position counts from the end, a position
  outside raises IndexError), the builtin \<open>min\<close> of two numbers (the second one is
  taken only when it is smaller, so a NaN in first place stays), \<open>abs\<close>, and \<open>int\<close>,
  which truncates towards zero and raises ValueError for NaN.
\<close>

definition series_iloc :: "series \<Rightarrow> int \<Rightarrow> py_error + cell" where
  "series_iloc xs j =
     (let n = int (length xs); pos = (if j < 0 then n + j else j)
      in if 0 \<le> pos \<and> pos < n then Inr (xs ! nat pos) else Inl IndexError)"

definition py_min :: "cell \<Rightarrow> cell \<Rightarrow> cell" where
  "py_min a b = (if cell_lt b a then b else a)"

definition cell_abs :: "cell \<Rightarrow> cell" where
  "cell_abs c = map_option abs c"

definition py_int :: "cell \<Rightarrow> py_error + int" where
  "py_int c = (case c of None \<Rightarrow> Inl ValueError
               | Some x \<Rightarrow> Inr (if 0 \<le> x then \<lfloor>x\<rfloor> else \<lceil>x\<rceil>))"

text \<open>
  The RSI of the library \<open>ta\<close> (\<open>RSIIndicator(close).rsi()\<close>) is a parameter: it returns a
  series or raises. It is consulted only for a table without an \<open>rsi\<close> column, and an
  exception there makes the RSI 50.
\<close>

type_synonym rsi_lib = "series \<Rightarrow> py_error + series"

definition current_rsi_of :: "rsi_lib \<Rightarrow> frame \<Rightarrow> series \<Rightarrow> py_error + cell" where
  "current_rsi_of rsi df close =
     (if ''rsi'' \<notin> fst ` set (columns df)
      then (case bind_err (rsi close) (\<lambda>xs. series_iloc xs (- 1)) of
              Inl e \<Rightarrow> Inr (Some 50)
            | Inr v \<Rightarrow> Inr v)
      else bind_err (column df ''rsi'') (\<lambda>xs. series_iloc xs (- 1)))"

definition trend_text :: "cell \<Rightarrow> ftext" where
  "trend_text recent_change =
     (if cell_gt recent_change (Some 10) then [Text ''Strong Uptrend | 7d Change: '']
      else if cell_gt recent_change (Some 3) then [Text ''Uptrend | 7d Change: '']
      else if cell_lt recent_change (Some (- 10)) then [Text ''Strong Downtrend | 7d Change: '']
      else if cell_lt recent_change (Some (- 3)) then [Text ''Downtrend | 7d Change: '']
      else [Text ''Sideways | 7d Change: ''])
     @ [Cell recent_change, Text ''%'']"

text \<open>The body of the \<open>try\<close> block from the recent change on (lines 413 to 471).\<close>

definition rule_based_try :: "rsi_lib \<Rightarrow> frame \<Rightarrow> nat \<Rightarrow> py_error + (string \<times> int \<times> ftext)" where
  "rule_based_try rsi df lookback =
     bind_err (column df ''Close'') (\<lambda>close.
     bind_err (series_iloc close (- 1)) (\<lambda>latest.
     bind_err (series_iloc close (- int lookback - 1)) (\<lambda>past.
     let recent_change = cell_mul (cell_sub (cell_div latest past) (Some 1)) (Some 100)
     in bind_err (current_rsi_of rsi df close) (\<lambda>current_rsi.
        let (prediction, confidence) =
              (if cell_lt current_rsi (Some 30)
                 then (''Bullish'', cell_add (Some 70) (cell_sub (Some 30) current_rsi))
               else if cell_gt current_rsi (Some 70)
                 then (''Bearish'', cell_add (Some 70) (cell_sub current_rsi (Some 70)))
               else if cell_gt recent_change (Some 2)
                 then (''Bullish'', cell_add (Some 50) (py_min recent_change (Some 20)))
               else if cell_lt recent_change (Some (- 2))
                 then (''Bearish'', cell_add (Some 50) (py_min (cell_abs recent_change) (Some 20)))
               else (''Neutral'',
                     cell_add (Some 50)
                       (py_min (cell_mul (cell_abs recent_change) (Some (25 / 10))) (Some 10))))
        in bind_err (py_int confidence) (\<lambda>c.
             Inr (prediction, min c 95,
                  [Text ''RSI: '', Cell current_rsi, Text '' | Trend: '']
                  @ trend_text recent_change))))))"

definition rule_based_prediction :: "rsi_lib \<Rightarrow> frame option \<Rightarrow> string \<times> int \<times> ftext" where
  "rule_based_prediction rsi data =
     (case data of
        None \<Rightarrow> (''Neutral'', 50, [Text ''Insufficient data for prediction''])
      | Some df \<Rightarrow>
          if len df < 5 then (''Neutral'', 50, [Text ''Insufficient data for prediction''])
          else
            let lookback = min 7 (len df - 1)
            in if len df \<le> lookback then (''Neutral'', 50, [Text ''Insufficient historical data''])
               else (case rule_based_try rsi df lookback of
                       Inl e \<Rightarrow> (''Neutral'', 50, [Text ''Error in prediction algorithm''])
                     | Inr result \<Rightarrow> result))"

subsection \<open>enhanced\_prediction\<close>

text \<open>
  What a call of \<open>enhanced_prediction\<close> returns: the three values of
  \<open>rule_based_prediction\<close> (prediction, confidence, reason), or the four values of its
  own last line (the same three and the detailed analysis).
\<close>

datatype 'd prediction_result = Tuple3 string int ftext | Tuple4 string int ftext 'd

text \<open>
  Lines 160 to 382 score the last row of the feature table and build the detailed
  analysis; they are the parameter \<open>ensemble\<close>, which returns the four values or raises.
  A table with fewer than 30 rows goes to the rule-based predictor at once, and so does
  every exception of the main path.
\<close>

type_synonym 'd ensemble_stage = "frame \<Rightarrow> py_error + (string \<times> int \<times> ftext \<times> 'd)"

definition fallback :: "rsi_lib \<Rightarrow> frame option \<Rightarrow> 'd prediction_result" where
  "fallback rsi data = (case rule_based_prediction rsi data of (p, c, r) \<Rightarrow> Tuple3 p c r)"

definition enhanced_prediction ::
    "feature_stage \<Rightarrow> 'd ensemble_stage \<Rightarrow> rsi_lib \<Rightarrow> frame option \<Rightarrow> 'd prediction_result" where
  "enhanced_prediction features ensemble rsi data =
     (case data of
        None \<Rightarrow> fallback rsi data
      | Some df \<Rightarrow>
          if len df < 30 then fallback rsi data
          else (case ensemble (generate_features features df) of
                  Inl e \<Rightarrow> fallback rsi data
                | Inr (prediction, confidence, reason, detailed_analysis) \<Rightarrow>
                    Tuple4 prediction confidence reason detailed_analysis))"

section \<open>Backtest harness (backtesting.py)\<close>

text \<open>
  Row access. \<open>df.iloc[j]\<close> takes an integer position, counts a negative one from the
  end, and raises IndexError outside the table; \<open>df.iloc[:n]\<close> keeps the first \<open>n\<close>
  rows and never raises.
\<close>

definition iloc_cell :: "frame \<Rightarrow> int \<Rightarrow> string \<Rightarrow> py_error + cell" where
  "iloc_cell df j c =
     (let n = int (len df); pos = (if j < 0 then n + j else j)
      in if 0 \<le> pos \<and> pos < n
         then bind_err (column df c) (\<lambda>xs.
                if nat pos < length xs then Inr (xs ! nat pos) else Inl IndexError)
         else Inl IndexError)"

definition head_rows :: "nat \<Rightarrow> frame \<Rightarrow> frame" where
  "head_rows n df = \<lparr>index = take n (index df), columns = map (\<lambda>(k, xs). (k, take n xs)) (columns df)\<rparr>"

definition last_stamp :: "frame \<Rightarrow> py_error + nat" where
  "last_stamp df = (if index df = [] then Inl IndexError else Inr (last (index df)))"

text \<open>One record of the list \<open>trades\<close>.\<close>

record trade =
  date :: nat
  prediction :: string
  confidence :: int
  price :: cell
  future_price :: cell
  actual_return :: cell
  reason :: ftext
  outcome :: string

text \<open>
  The tuple assignment \<open>prediction, confidence, reason = enhanced_prediction(...)\<close>
  takes exactly three values; four raise ValueError.
\<close>

fun unpack_prediction :: "'d prediction_result \<Rightarrow> py_error + (string \<times> int \<times> ftext)" where
  "unpack_prediction (Tuple3 p c r) = Inr (p, c, r)"
| "unpack_prediction (Tuple4 p c r d) = Inl ValueError"

definition classify :: "string \<Rightarrow> cell \<Rightarrow> string" where
  "classify p ret =
     (if (p = ''Bullish'' \<and> cell_gt ret (Some 0)) \<or> (p = ''Bearish'' \<and> cell_lt ret (Some 0))
      then ''Success''
      else if p = ''Neutral'' then ''Neutral''
      else ''Failure'')"

text \<open>
  The body of the loop for the position \<open>i\<close> (lines 77 to 114). It returns the trade
  and the value that \<open>i\<close> has after \<open>i += 3\<close>. The return is computed on numpy floats,
  so a current price of 0 raises nothing.
\<close>

definition step ::
    "feature_stage \<Rightarrow> 'd ensemble_stage \<Rightarrow> rsi_lib \<Rightarrow> frame \<Rightarrow> int \<Rightarrow> nat
     \<Rightarrow> py_error + (trade \<times> nat)" where
  "step features ensemble rsi enhanced_data prediction_interval i =
     (let historical_slice = head_rows (i + 1) enhanced_data
      in bind_err (iloc_cell enhanced_data (int i + prediction_interval) ''Close'') (\<lambda>future.
         bind_err (iloc_cell historical_slice (- 1) ''Close'') (\<lambda>current.
         let ret = cell_mul (cell_sub (cell_div future current) (Some 1)) (Some 100)
         in bind_err (unpack_prediction
                (enhanced_prediction features ensemble rsi (Some historical_slice)))
              (\<lambda>(p, c, r).
         bind_err (last_stamp historical_slice) (\<lambda>stamp.
           Inr (\<lparr>date = stamp, prediction = p, confidence = c, price = current,
                 future_price = future, actual_return = ret, reason = r,
                 outcome = classify p ret\<rparr>, i + 3))))))"

text \<open>
  The \<open>for\<close> loop over \<open>range(start_idx, len(enhanced_data) - prediction_interval)\<close>. The
  positions are the items of the range; the value the body leaves in \<open>i\<close> is replaced
  by the next item. An exception in the body ends the loop.
\<close>

fun walk :: "(nat \<Rightarrow> py_error + (trade \<times> nat)) \<Rightarrow> nat list \<Rightarrow> trade list \<Rightarrow> py_error + trade list" where
  "walk body [] trades = Inr trades"
| "walk body (i # items) trades =
     (case body i of
        Inl e \<Rightarrow> Inl e
      | Inr (trade_result, i') \<Rightarrow> walk body items (trades @ [trade_result]))"

definition range_from :: "nat \<Rightarrow> int \<Rightarrow> nat list" where
  "range_from start stop = [start..<nat stop]"

text \<open>
  The performance figures of lines 117 to 173. \<open>round(x, 2)\<close> is rounding to two
  decimals, ties to the even neighbour. The trades hold Python floats, for which a
  division by zero raises ZeroDivisionError: this is the division of the price of the
  last trade by the price of the first one. The report lists the last 20 trades and
  counts all of them; its time stamp is left out.
\<close>

definition round_half_even :: "real \<Rightarrow> int" where
  "round_half_even x =
     (let f = \<lfloor>x\<rfloor>; d = x - of_int f
      in if d < 1 / 2 then f else if d > 1 / 2 then f + 1 else if even f then f else f + 1)"

definition round2 :: "cell \<Rightarrow> cell" where
  "round2 c = map_option (\<lambda>x. of_int (round_half_even (x * 100)) / 100) c"

definition py_truediv :: "cell \<Rightarrow> cell \<Rightarrow> py_error + cell" where
  "py_truediv a b = (if b = Some 0 then Inl ZeroDivisionError else Inr (cell_div a b))"

record report =
  rep_symbol :: string
  rep_period :: string
  rep_prediction_interval :: int
  num_trades :: nat
  successful_trades :: nat
  failed_trades :: nat
  neutral_trades :: nat
  success_rate :: cell
  initial_capital :: real
  final_portfolio_value :: cell
  portfolio_return :: cell
  hodl_return :: cell
  alpha :: cell
  trades :: "trade list"

definition count_outcome :: "string \<Rightarrow> trade list \<Rightarrow> nat" where
  "count_outcome l ts = length (filter (\<lambda>t. outcome t = l) ts)"

fun portfolio :: "cell \<Rightarrow> trade list \<Rightarrow> cell" where
  "portfolio portfolio_value [] = portfolio_value"
| "portfolio portfolio_value (t # ts) =
     portfolio (if prediction t = ''Bullish''
                then cell_mul portfolio_value
                       (cell_add (Some 1) (cell_div (actual_return t) (Some 100)))
                else portfolio_value) ts"

definition summarize :: "string \<Rightarrow> string \<Rightarrow> int \<Rightarrow> trade list \<Rightarrow> py_error + report" where
  "summarize symbol period prediction_interval ts =
     (let successful = count_outcome ''Success'' ts;
          failed = count_outcome ''Failure'' ts;
          neutral = count_outcome ''Neutral'' ts;
          total_predictions = successful + failed + neutral;
          initial = 10000;
          portfolio_value = portfolio (Some initial) ts;
          first_price = (case ts of [] \<Rightarrow> Some 0 | t # _ \<Rightarrow> price t)
      in bind_err (if ts = [] then Inr (Some initial)
                   else bind_err (py_truediv (price (last ts)) first_price) (\<lambda>q.
                          let hodl = cell_mul (cell_sub q (Some 1)) (Some 100)
                          in Inr (cell_mul (Some initial)
                                    (cell_add (Some 1) (cell_div hodl (Some 100))))))
           (\<lambda>hodl_value.
         let rate = (if total_predictions > 0
                     then Some (real successful / real total_predictions * 100) else Some 0);
             p_return = cell_mul (cell_sub (cell_div portfolio_value (Some initial)) (Some 1)) (Some 100);
             h_return = cell_mul (cell_sub (cell_div hodl_value (Some initial)) (Some 1)) (Some 100)
         in Inr \<lparr>rep_symbol = symbol, rep_period = period,
                 rep_prediction_interval = prediction_interval,
                 num_trades = length ts, successful_trades = successful,
                 failed_trades = failed, neutral_trades = neutral,
                 success_rate = round2 rate, initial_capital = initial,
                 final_portfolio_value = round2 portfolio_value,
                 portfolio_return = round2 p_return, hodl_return = round2 h_return,
                 alpha = round2 (cell_sub p_return h_return),
                 trades = drop (length ts - 20) ts\<rparr>))"

text \<open>
  What \<open>run_backtest\<close> returns besides a report: an error dictionary and an HTTP status.
\<close>

datatype failure =
    SymbolRequired
  | InsufficientData string
  | NoValidTrades
  | BacktestFailed py_error

type_synonym response = "(failure \<times> nat) + report"

definition endswith :: "string \<Rightarrow> string \<Rightarrow> bool" where
  "endswith s suffix = (length suffix \<le> length s \<and> drop (length s - length suffix) s = suffix)"

text \<open>
  \<open>run_backtest(symbol, period, prediction_interval)\<close>. The market data source
  \<open>yf.download\<close> is the parameter \<open>download\<close>; \<open>features\<close>, \<open>ensemble\<close> and \<open>rsi\<close> are the
  library stages of the predictor. Every exception below the first line is
  caught by the handler of the whole function (lines 179 to 181), which answers with
  the failure \<open>BacktestFailed\<close> and status 500. \<open>generate_features\<close> does not raise, so the
  handler around its call is never entered.
\<close>

definition normalize_symbol :: "string \<Rightarrow> string" where
  "normalize_symbol symbol =
     (let s = upper symbol in if endswith s ''-USD'' then s else s @ ''-USD'')"

definition run_backtest ::
    "(string \<Rightarrow> string \<Rightarrow> py_error + frame) \<Rightarrow> feature_stage \<Rightarrow> 'd ensemble_stage \<Rightarrow> rsi_lib
     \<Rightarrow> string \<Rightarrow> string \<Rightarrow> int \<Rightarrow> response" where
  "run_backtest download features ensemble rsi symbol period prediction_interval =
     (if symbol = [] then Inl (SymbolRequired, 400)
      else
        let symbol' = normalize_symbol symbol
        in case download symbol' period of
             Inl e \<Rightarrow> Inl (BacktestFailed e, 500)
           | Inr data \<Rightarrow>
               if empty_df data \<or> len data < 30 then Inl (InsufficientData symbol', 400)
               else
                 let enhanced_data = generate_features features data;
                     start_idx = 30
                 in case walk (step features ensemble rsi enhanced_data
                                 prediction_interval)
                           (range_from start_idx (int (len enhanced_data) - prediction_interval)) []
                    of Inl e \<Rightarrow> Inl (BacktestFailed e, 500)
                     | Inr ts \<Rightarrow>
                         if ts = [] then Inl (NoValidTrades, 400)
                         else (case summarize symbol' period prediction_interval ts of
                                 Inl e \<Rightarrow> Inl (BacktestFailed e, 500)
                               | Inr results \<Rightarrow> Inr results))"

section \<open>Inputs used in the examples\<close>

text \<open>
  A price history of \<open>n\<close> daily bars with a Close column only, rising by one unit a
  day from 100, and a market data source that answers every request with a given
  table.
\<close>

definition history :: "nat \<Rightarrow> frame" where
  "history n =
     \<lparr>index = [0..<n], columns = [(''Close'', map (\<lambda>i. Some (100 + real i)) [0..<n])]\<rparr>"

definition fetch :: "frame \<Rightarrow> string \<Rightarrow> string \<Rightarrow> py_error + frame" where
  "fetch df symbol period = Inr df"

text \<open>
  A feature stage that adds no column, a stage that raises, an ensemble stage that
  returns its four values, and an RSI library that raises.
\<close>

definition no_features :: feature_stage where
  "no_features data = Inr data"

definition failing_stage :: "frame \<Rightarrow> py_error + 'a" where
  "failing_stage data = Inl LibraryError"

definition bullish_ensemble :: "unit ensemble_stage" where
  "bullish_ensemble data = Inr (''Bullish'', 80, [Text ''MACD above signal line''], ())"

definition no_rsi :: rsi_lib where
  "no_rsi close = Inl LibraryError"

text \<open>Sixteen closing prices 1, 2, ..., 16: every day is a gain of 1.\<close>

definition rising :: series where
  "rising = map (\<lambda>n. Some (real n)) [1..<17]"

text \<open>A table of one row whose Volume is NaN, and a table that has a Close column only.\<close>

definition gappy_table :: frame where
  "gappy_table = \<lparr>index = [0], columns = [(''Close'', [Some 100]), (''Volume'', [None])]\<rparr>"

definition close_only :: frame where
  "close_only = \<lparr>index = [0, 1, 2], columns = [(''Close'', [None, Some 7, None])]\<rparr>"

text \<open>
  A Bollinger library that raises and a remainder of the technical analysis that
  raises.
\<close>

definition no_bands :: bands_lib where
  "no_bands data window window_dev = Inl LibraryError"

definition no_rest :: technical_rest where
  "no_rest df bb cross = Inl LibraryError"

text \<open>
  A generator that plays a script. Its state is the list of the fractions that are
  still to come, each in the interval from 0 to 1; seeding looks the list up under the
  seed; a draw takes the first fraction, or one half when the list is used up, and
  scales it to the range that is asked for.
\<close>

definition next_fraction :: "real list \<Rightarrow> real \<times> real list" where
  "next_fraction g = (case g of [] \<Rightarrow> (1 / 2, []) | u # us \<Rightarrow> (u, us))"

definition scripted :: "(string \<Rightarrow> real list) \<Rightarrow> (real list) random_lib" where
  "scripted script =
     \<lparr>seed = script,
      randrange = (\<lambda>a b g. case next_fraction g of (u, g') \<Rightarrow> (a + \<lfloor>u * real_of_int (b - a)\<rfloor>, g')),
      randint = (\<lambda>a b g. case next_fraction g of (u, g') \<Rightarrow> (a + \<lfloor>u * real_of_int (b - a + 1)\<rfloor>, g')),
      random_float = next_fraction,
      uniform = (\<lambda>a b g. case next_fraction g of (u, g') \<Rightarrow> (a + (b - a) * u, g')),
      choice = (\<lambda>n g. case next_fraction g of (u, g') \<Rightarrow> (nat \<lfloor>u * real n\<rfloor>, g'))\<rparr>"

text \<open>
  Two scripts: one in which every draw is in the middle of its range, and one in which
  the exchange outflows of BTC are high, its inflows and its address growth are low,
  and the Twitter and Reddit scores are high.
\<close>

definition quiet :: "string \<Rightarrow> real list" where
  "quiet s = []"

definition keen :: "string \<Rightarrow> real list" where
  "keen s =
     (if s = ''BTC_24h_2024-01-01'' then [1 / 2, 1 / 2, 0, 99 / 100]
      else if s = ''BTC_twitter_2024-01-01'' then [9 / 10]
      else if s = ''BTC_reddit_2024-01-01'' then [9 / 10]
      else [])"

text \<open>
  A clock that reads 1000 at every place but the writes to the caches, where it reads
  1002, on the first of January 2024; and the state of a process in which no news is
  stored and the generator has one fraction left.
\<close>

definition noon :: clock where
  "noon = \<lparr>now = (\<lambda>s. if s \<in> set [MultiStore, OnchainStore, CombinedStore, TwitterStore,
                                      RedditStore, ScraperStore] then 1002 else 1000),
           ymd = (\<lambda>t. ''2024-01-01'')\<rparr>"

definition fresh :: "(real list) globals" where
  "fresh = \<lparr>rng = [1 / 4], NEWS_CACHE = Map.empty\<rparr>"

text \<open>A technical dictionary with the signal Bullish.\<close>

definition bullish_technical :: technical where
  "bullish_technical =
     \<lparr>tech_overall_signal = ''Bullish'', tech_confidence = 80,
      tech_explanation = [Text ''RSI is oversold''], tech_signal_score = Some 4\<rparr>"

section \<open>The agreement level as the specification words it\<close>

text \<open>
  The specification classifies each source by the threshold of 3 on the common scale
  and calls the agreement Strong when the three classifications match, Moderate when
  two of them agree, and Weak otherwise.
\<close>

definition spec_agreement :: "real \<Rightarrow> real \<Rightarrow> real \<Rightarrow> string" where
  "spec_agreement technical_norm onchain_norm social_norm =
     (let a = label3 technical_norm; b = label3 onchain_norm; c = label3 social_norm
      in if a = b \<and> b = c then ''Strong''
         else if a = b \<or> b = c \<or> a = c then ''Moderate''
         else ''Weak'')"

section \<open>Properties of the indicator library\<close>

lemma ewm_from_length: "length (ewm_from \<alpha> st xs) = length xs"
  by (induction xs arbitrary: st) (simp_all add: Let_def)

lemma calculate_ema_length: "length (calculate_ema data period) = length data"
  by (simp add: calculate_ema_def ewm_mean_def ewm_from_length)

text \<open>
  The invariant of the smoothing loop on a series whose observations all equal \<open>c\<close>:
  the running average is undefined or \<open>c\<close>, and the weight it carries is not negative.
\<close>

lemma ewm_step_const:
  assumes "0 < \<alpha>" "\<alpha> \<le> 1" "y \<in> {None, Some c}" "0 \<le> w" "x \<in> {None, Some c}"
  shows "fst (ewm_step \<alpha> (y, w) x) \<in> {None, Some c} \<and> 0 \<le> snd (ewm_step \<alpha> (y, w) x)"
proof (cases y)
  case None
  with assms show ?thesis by (cases x) auto
next
  case (Some y')
  with assms have y': "y' = c" by simp
  show ?thesis
  proof (cases x)
    case None
    with Some assms show ?thesis by simp
  next
    case (Some x')
    with assms have x': "x' = c" by simp
    have pos: "0 < w * (1 - \<alpha>) + \<alpha>"
      using assms by (simp add: add_nonneg_pos)
    have "(w * (1 - \<alpha>) * c + \<alpha> * c) / (w * (1 - \<alpha>) + \<alpha>) = c"
    proof -
      have "w * (1 - \<alpha>) * c + \<alpha> * c = c * (w * (1 - \<alpha>) + \<alpha>)"
        by (simp add: algebra_simps)
      with pos show ?thesis by simp
    qed
    with \<open>y = Some y'\<close> Some y' x' show ?thesis by simp
  qed
qed

lemma ewm_from_const:
  assumes "0 < \<alpha>" "\<alpha> \<le> 1" "set xs \<subseteq> {None, Some c}"
  shows "y \<in> {None, Some c} \<Longrightarrow> 0 \<le> w \<Longrightarrow> set (ewm_from \<alpha> (y, w) xs) \<subseteq> {None, Some c}"
  using assms(3)
proof (induction xs arbitrary: y w)
  case Nil
  then show ?case by simp
next
  case (Cons x xs)
  from Cons.prems have x: "x \<in> {None, Some c}" and xs: "set xs \<subseteq> {None, Some c}"
    by auto
  obtain y' w' where st: "ewm_step \<alpha> (y, w) x = (y', w')"
    by (cases "ewm_step \<alpha> (y, w) x")
  from ewm_step_const [OF assms(1,2) Cons.prems(1,2) x] st
  have inv: "y' \<in> {None, Some c}" "0 \<le> w'" by simp_all
  from Cons.IH [OF inv xs] inv(1) st show ?case
    by (simp add: Let_def)
qed

lemma span_alpha: "1 \<le> period \<Longrightarrow> 0 < 2 / (real period + 1) \<and> 2 / (real period + 1) \<le> 1"
  by simp

text \<open>
  Claim C10. On a series whose every observation is the constant \<open>c\<close>, every defined
  value of \<open>calculate_ema\<close> is \<open>c\<close>, for every period; and the result is aligned with the
  input (lemma \<open>calculate_ema_length\<close>).
\<close>

theorem calculate_ema_constant:
  assumes "set data \<subseteq> {None, Some c}" "i < length data" "calculate_ema data period ! i = Some v"
  shows "v = c"
proof (cases "period < 1")
  case True
  with assms show ?thesis by (simp add: calculate_ema_def)
next
  case False
  then have p: "1 \<le> period" by simp
  have "set (calculate_ema data period) \<subseteq> {None, Some c}"
    using ewm_from_const [OF span_alpha [OF p, THEN conjunct1] span_alpha [OF p, THEN conjunct2] assms(1), of None 1]
      False by (simp add: calculate_ema_def ewm_mean_def)
  moreover have "calculate_ema data period ! i \<in> set (calculate_ema data period)"
    using assms(2) by (simp add: calculate_ema_length)
  ultimately show ?thesis using assms(3) by auto
qed


text \<open>
  Witness for claim C10: the theorem at the series 5, 5, 5 with period 3 and the last
  position.
\<close>

theorem calculate_ema_constant_witness:
  "set [Some 5, Some 5, Some 5] \<subseteq> {None, Some (5 :: real)}
   \<and> (2 :: nat) < length [Some (5 :: real), Some 5, Some 5]
   \<and> (\<exists>v. calculate_ema [Some 5, Some 5, Some 5] 3 ! 2 = Some v \<and> v = 5)"
proof -
  have h1: "set [Some 5, Some 5, Some 5] \<subseteq> {None, Some (5 :: real)}" by simp
  have h2: "(2 :: nat) < length [Some (5 :: real), Some 5, Some 5]" by simp
  obtain v where h3: "calculate_ema [Some 5, Some 5, Some 5] 3 ! 2 = Some v"
    by (simp add: calculate_ema_def ewm_mean_def)
  from calculate_ema_constant [OF h1 h2 h3] have "v = 5" .
  with h1 h2 h3 show ?thesis by blast
qed

subsection \<open>The RSI: its range, and its value where the average loss is zero\<close>

text \<open>
  Both RSI functions keep every defined value in the interval from 0 to 100, and
  neither divides by zero. Where the average loss over the window is exactly 0, the
  RSI line of \<open>calculate_stochastic_rsi\<close> is 0, and \<open>calculate_rsi\<close> gives
  \<open>100 - 100 / (1 + g * 10\<^sup>1\<^sup>0)\<close> for the average gain \<open>g\<close>.
\<close>

lemma length_diff: "length (diff xs) = length xs"
  by (cases xs) simp_all

lemma length_rolling_mean: "length (rolling_mean w xs) = length xs"
  by (simp add: rolling_mean_def)

lemma rolling_mean_nonneg:
  assumes "\<forall>x \<in> set xs. \<forall>v. x = Some v \<longrightarrow> 0 \<le> v" "i < length xs" "rolling_mean w xs ! i = Some m"
  shows "0 \<le> m"
proof -
  from assms(2,3) have c: "complete_window w xs i"
    and m: "m = sum_list (map the (window_at w xs i)) / real w"
    by (auto simp: rolling_mean_def split: if_splits)
  have "set (window_at w xs i) \<subseteq> set xs"
    by (auto simp: window_at_def dest: in_set_takeD in_set_dropD)
  with assms(1) c have "\<forall>x \<in> set (window_at w xs i). 0 \<le> the x"
  proof (intro ballI)
    fix x assume x: "x \<in> set (window_at w xs i)"
    with c obtain v where "x = Some v" by (cases x) (auto simp: complete_window_def)
    with x \<open>set (window_at w xs i) \<subseteq> set xs\<close> assms(1) show "0 \<le> the x" by auto
  qed
  then have "0 \<le> sum_list (map the (window_at w xs i))"
    by (intro sum_list_nonneg) auto
  with m show ?thesis by simp
qed

lemma gain_nonneg: "\<forall>x \<in> set (map where_gt0 d). \<forall>v. x = Some v \<longrightarrow> 0 \<le> v"
proof (intro ballI allI impI)
  fix x v assume "x \<in> set (map where_gt0 d)" "x = Some v"
  then obtain y where "where_gt0 y = Some v" unfolding set_map by force
  then show "0 \<le> v" by (cases y) (auto split: if_splits)
qed

lemma loss_nonneg: "\<forall>x \<in> set (map (cell_neg \<circ> where_lt0) d). \<forall>v. x = Some v \<longrightarrow> 0 \<le> v"
proof (intro ballI allI impI)
  fix x v assume "x \<in> set (map (cell_neg \<circ> where_lt0) d)" "x = Some v"
  then obtain y where "(cell_neg \<circ> where_lt0) y = Some v" unfolding set_map by force
  then show "0 \<le> v" by (cases y) (auto split: if_splits)
qed

lemma rsi_of_rs_range:
  assumes "rsi_of_rs (Some r) = Some v" "0 \<le> r"
  shows "0 \<le> v \<and> v < 100"
proof -
  from assms have v: "v = 100 - 100 / (1 + r)"
    by (auto simp: rsi_of_rs_def split: if_splits)
  from assms(2) have "100 / (1 + r) \<le> 100" "0 < 100 / (1 + r)"
    by (simp_all add: divide_le_eq)
  with v show ?thesis by simp
qed

lemma stoch_rsi_line_nth:
  assumes "i < length data"
  shows "stoch_rsi_line data period ! i
           = rsi_of_rs (rs_where (stoch_avg_gain data period ! i) (stoch_avg_loss data period ! i))"
  using assms
  by (simp add: stoch_rsi_line_def stoch_avg_gain_def stoch_avg_loss_def length_rolling_mean length_diff)

lemma stoch_rsi_zero_loss:
  assumes "i < length data" "stoch_avg_loss data period ! i = Some 0"
  shows "stoch_rsi_line data period ! i = Some 0"
  using assms by (simp add: stoch_rsi_line_nth rsi_of_rs_def)

lemma stoch_rsi_range:
  assumes "i < length data" "stoch_rsi_line data period ! i = Some v"
  shows "0 \<le> v \<and> v < 100"
proof -
  let ?g = "stoch_avg_gain data period ! i" and ?l = "stoch_avg_loss data period ! i"
  from assms have r: "rsi_of_rs (rs_where ?g ?l) = Some v"
    by (simp add: stoch_rsi_line_nth)
  then obtain rs where rs: "rs_where ?g ?l = Some rs"
    by (cases "rs_where ?g ?l") (auto simp: rsi_of_rs_def)
  then obtain l where l: "?l = Some l" by (cases ?l) auto
  have l0: "0 \<le> l"
    using rolling_mean_nonneg [OF loss_nonneg, of i "diff data" period l] assms(1) l
    by (simp add: stoch_avg_loss_def length_diff)
  have "0 \<le> rs"
  proof (cases "l = 0")
    case True
    with rs l show ?thesis by simp
  next
    case False
    with rs l obtain g where g: "?g = Some g" and q: "rs = g / l"
      by (cases ?g) (auto split: if_splits)
    have "0 \<le> g"
      using rolling_mean_nonneg [OF gain_nonneg, of i "diff data" period g] assms(1) g
      by (simp add: stoch_avg_gain_def length_diff)
    with l0 q show ?thesis by simp
  qed
  with r rs show ?thesis using rsi_of_rs_range by simp
qed

lemma up_nonneg: "\<forall>x \<in> set (map clip_neg d). \<forall>v. x = Some v \<longrightarrow> 0 \<le> v"
proof (intro ballI allI impI)
  fix x v assume "x \<in> set (map clip_neg d)" "x = Some v"
  then obtain y where "clip_neg y = Some v" unfolding set_map by force
  then show "0 \<le> v" by (cases y) (auto split: if_splits)
qed

lemma down_nonneg: "\<forall>x \<in> set (map clip_pos_abs d). \<forall>v. x = Some v \<longrightarrow> 0 \<le> v"
proof (intro ballI allI impI)
  fix x v assume "x \<in> set (map clip_pos_abs d)" "x = Some v"
  then obtain y where "clip_pos_abs y = Some v" unfolding set_map by force
  then show "0 \<le> v" by (cases y) (auto split: if_splits)
qed

lemma calculate_rsi_nth:
  assumes "i < length price_series"
  shows "calculate_rsi price_series window ! i
           = rsi_of_rs (cell_div (roll_up price_series window ! i)
                                 (safe_down (roll_down price_series window ! i)))"
  using assms
  by (simp add: calculate_rsi_def roll_up_def roll_down_def length_rolling_mean length_diff Let_def)

lemma roll_up_nonneg:
  "i < length price_series \<Longrightarrow> roll_up price_series window ! i = Some u \<Longrightarrow> 0 \<le> u"
  using rolling_mean_nonneg [OF up_nonneg, of i "diff price_series" window u]
  by (simp add: roll_up_def length_diff)

lemma roll_down_nonneg:
  "i < length price_series \<Longrightarrow> roll_down price_series window ! i = Some d \<Longrightarrow> 0 \<le> d"
  using rolling_mean_nonneg [OF down_nonneg, of i "diff price_series" window d]
  by (simp add: roll_down_def length_diff)

lemma calculate_rsi_zero_loss:
  assumes "i < length price_series" "roll_down price_series window ! i = Some 0"
    "roll_up price_series window ! i = Some g"
  shows "calculate_rsi price_series window ! i = Some (100 - 100 / (1 + g * 10 ^ 10))"
proof -
  from roll_up_nonneg [OF assms(1,3)] have "1 + g * 10 ^ 10 \<noteq> 0"
    by (simp add: add_nonneg_eq_0_iff)
  with assms show ?thesis by (simp add: calculate_rsi_nth rsi_of_rs_def)
qed

lemma calculate_rsi_range:
  assumes "i < length price_series" "calculate_rsi price_series window ! i = Some v"
  shows "0 \<le> v \<and> v < 100"
proof -
  let ?u = "roll_up price_series window ! i" and ?d = "roll_down price_series window ! i"
  from assms have r: "rsi_of_rs (cell_div ?u (safe_down ?d)) = Some v"
    by (simp add: calculate_rsi_nth)
  then obtain rs where rs: "cell_div ?u (safe_down ?d) = Some rs"
    by (cases "cell_div ?u (safe_down ?d)") (auto simp: rsi_of_rs_def)
  then obtain u d where u: "?u = Some u" and d: "?d = Some d"
    by (cases ?u; cases ?d) auto
  have u0: "0 \<le> u" using roll_up_nonneg [OF assms(1) u] .
  have d0: "0 \<le> d" using roll_down_nonneg [OF assms(1) d] .
  from rs u d have "rs = u / (if d = 0 then 1 / 10 ^ 10 else d)"
    by (auto split: if_splits)
  with u0 d0 have "0 \<le> rs" by (auto simp: zero_le_divide_iff)
  with r rs show ?thesis using rsi_of_rs_range by simp
qed

text \<open>
  Claim C3, on the prices 1, 2, ..., 16 with the window 14. At position 14 the average
  gain over the window is 1 and the average loss is exactly 0. No division by zero
  occurs, but the RSI line of \<open>calculate_stochastic_rsi\<close> is 0 there, not 100: the
  relative strength is set to 0 where the average loss is 0. On the same window
  \<open>calculate_rsi\<close> of simple\_rsi.py replaces the average loss by \<open>10\<^sup>-\<^sup>1\<^sup>0\<close> and
  returns \<open>100 - 100 / (1 + 10\<^sup>1\<^sup>0)\<close>, just below 100.
\<close>

theorem stochastic_rsi_zero_on_zero_loss:
  "stoch_avg_gain rising 14 ! 14 = Some 1 \<and> stoch_avg_loss rising 14 ! 14 = Some 0
   \<and> fst (calculate_stochastic_rsi rising 14 3 3) ! 14 = Some 0
   \<and> roll_up rising 14 ! 14 = Some 1 \<and> roll_down rising 14 ! 14 = Some 0
   \<and> calculate_rsi rising 14 ! 14 = Some (100 - 100 / (1 + 10 ^ 10))"
  by code_simp

section \<open>Properties of the signal fusion\<close>

lemma bind_err_Inr: "bind_err m f = Inr y \<longleftrightarrow> (\<exists>x. m = Inr x \<and> f x = Inr y)"
  by (cases m) auto

lemma item_Inr: "item v = Inr x \<longleftrightarrow> v = Some x"
  by (cases v) (auto simp: item_def)

subsection \<open>Weights and the range of the combined score\<close>

lemma weights_sum: "(case weights timeframe of (a, b, c) \<Rightarrow> a + b + c = 1)"
  by (simp add: weights_def)

lemma combined_score_bound:
  assumes "\<bar>technical_score t\<bar> \<le> 10" "\<bar>get_or (oc_score oc) 0\<bar> \<le> 100"
    "\<bar>get_or (so_score so) 0\<bar> \<le> 1"
  shows "\<bar>combined_score t oc so timeframe\<bar> \<le> 10"
  using assms
  by (auto simp: combined_score_def weights_def onchain_score_def social_score_def abs_le_iff)

lemma combined_signal_score:
  "calculate_combined_signal t oc so timeframe = Inr (s, c, p, e) \<Longrightarrow>
     s = combined_score t oc so timeframe"
  by (auto simp: calculate_combined_signal_def Let_def bind_err_Inr split: if_splits)

text \<open>
  Claim C5. The weights are 0.5/0.2/0.3 for the time frame \<open>1h\<close>, 0.4/0.3/0.3 for \<open>1d\<close>
  and 0.3/0.5/0.2 for every other one, and they add up to 1 for every time frame.
  When the technical score lies in [-10, 10], the on-chain score in [-100, 100] and
  the social score in [-1, 1], the combined score, and so the score that
  \<open>_calculate_combined_signal\<close> returns, lies in [-10, 10].
\<close>

theorem fusion_weights_and_score_bound:
  assumes "\<bar>technical_score t\<bar> \<le> 10" "\<bar>get_or (oc_score oc) 0\<bar> \<le> 100"
    "\<bar>get_or (so_score so) 0\<bar> \<le> 1"
  shows "weights ''1h'' = (5 / 10, 2 / 10, 3 / 10) \<and> weights ''1d'' = (4 / 10, 3 / 10, 3 / 10)
       \<and> (timeframe \<noteq> ''1h'' \<and> timeframe \<noteq> ''1d'' \<longrightarrow> weights timeframe = (3 / 10, 5 / 10, 2 / 10))
       \<and> (case weights timeframe of (a, b, c) \<Rightarrow> a + b + c = 1)
       \<and> - 10 \<le> combined_score t oc so timeframe \<and> combined_score t oc so timeframe \<le> 10
       \<and> (\<forall>s c p e. calculate_combined_signal t oc so timeframe = Inr (s, c, p, e)
             \<longrightarrow> - 10 \<le> s \<and> s \<le> 10)"
proof -
  have b: "\<bar>combined_score t oc so timeframe\<bar> \<le> 10"
    by (rule combined_score_bound [OF assms])
  have w: "weights ''1h'' = (5 / 10, 2 / 10, 3 / 10) \<and> weights ''1d'' = (4 / 10, 3 / 10, 3 / 10)
       \<and> (timeframe \<noteq> ''1h'' \<and> timeframe \<noteq> ''1d'' \<longrightarrow> weights timeframe = (3 / 10, 5 / 10, 2 / 10))"
    by (simp add: weights_def)
  from b have b': "- 10 \<le> combined_score t oc so timeframe \<and> combined_score t oc so timeframe \<le> 10"
    by (simp add: abs_le_iff)
  have r: "\<forall>s c p e. calculate_combined_signal t oc so timeframe = Inr (s, c, p, e)
             \<longrightarrow> - 10 \<le> s \<and> s \<le> 10"
    using b' combined_signal_score by blast
  from w weights_sum [of timeframe] b' r show ?thesis by blast
qed

text \<open>
  Witness for claim C5: the three scores at the upper end of their ranges, for the
  time frame \<open>1w\<close>, which is neither \<open>1h\<close> nor \<open>1d\<close>.
\<close>

theorem fusion_weights_and_score_bound_witness:
  "\<bar>technical_score \<lparr>tech_overall_signal = ''Bullish'', tech_confidence = 100,
        tech_explanation = [], tech_signal_score = Some 10\<rparr>\<bar> \<le> 10
   \<and> \<bar>get_or (oc_score \<lparr>oc_score = Some 100\<rparr>) 0\<bar> \<le> 100
   \<and> \<bar>get_or (so_score \<lparr>so_sentiment = Some ''Bullish'', so_score = Some 1,
        so_agreement = Some ''Strong''\<rparr>) 0\<bar> \<le> 1
   \<and> ''1w'' \<noteq> ''1h'' \<and> ''1w'' \<noteq> ''1d''
   \<and> weights ''1w'' = (3 / 10, 5 / 10, 2 / 10)
   \<and> combined_score \<lparr>tech_overall_signal = ''Bullish'', tech_confidence = 100,
        tech_explanation = [], tech_signal_score = Some 10\<rparr> \<lparr>oc_score = Some 100\<rparr>
        \<lparr>so_sentiment = Some ''Bullish'', so_score = Some 1, so_agreement = Some ''Strong''\<rparr>
        ''1w'' \<le> 10
   \<and> (\<exists>s c p e. calculate_combined_signal \<lparr>tech_overall_signal = ''Bullish'', tech_confidence = 100,
        tech_explanation = [], tech_signal_score = Some 10\<rparr> \<lparr>oc_score = Some 100\<rparr>
        \<lparr>so_sentiment = Some ''Bullish'', so_score = Some 1, so_agreement = Some ''Strong''\<rparr>
        ''1w'' = Inr (s, c, p, e) \<and> - 10 \<le> s \<and> s \<le> 10)"
proof -
  let ?t = "\<lparr>tech_overall_signal = ''Bullish'', tech_confidence = 100,
        tech_explanation = [], tech_signal_score = Some 10\<rparr>"
  let ?oc = "\<lparr>oc_score = Some 100\<rparr>"
  let ?so = "\<lparr>so_sentiment = Some ''Bullish'', so_score = Some 1, so_agreement = Some ''Strong''\<rparr>"
  have h1: "\<bar>technical_score ?t\<bar> \<le> 10" by (simp add: technical_score_def get_or_def)
  have h2: "\<bar>get_or (oc_score ?oc) 0\<bar> \<le> 100" by (simp add: get_or_def)
  have h3: "\<bar>get_or (so_score ?so) 0\<bar> \<le> 1" by (simp add: get_or_def)
  have h4: "''1w'' \<noteq> ''1h'' \<and> ''1w'' \<noteq> ''1d''" by simp
  have "map_sum id fst (calculate_combined_signal ?t ?oc ?so ''1w'') = Inr 10" by code_simp
  then obtain s c p e where r: "calculate_combined_signal ?t ?oc ?so ''1w'' = Inr (s, c, p, e)"
    by (cases "calculate_combined_signal ?t ?oc ?so ''1w''") auto
  from fusion_weights_and_score_bound [OF h1 h2 h3, of "''1w''"] h1 h2 h3 h4 r
  show ?thesis by blast
qed

subsection \<open>The technical analysis never gets past its tuple assignment\<close>

lemma unpack3_bands_raises: "\<exists>e. unpack3 (calculate_bollinger_bands bands close w d) = Inl e"
  by (auto simp: calculate_bollinger_bands_def Let_def split: sum.splits)

lemma technical_try_raises: "\<exists>e. technical_try bands rest df = Inl e"
proof (cases "column df ''Close''")
  case (Inl e)
  then show ?thesis by (simp add: technical_try_def)
next
  case (Inr close)
  from unpack3_bands_raises [of bands close 20 2] Inr show ?thesis
    by (auto simp: technical_try_def Let_def split: prod.splits)
qed

lemma analyze_technical_cases:
  "analyze_technical_indicators bands rest price_data = insufficient_technical
   \<or> (\<exists>e. analyze_technical_indicators bands rest price_data = error_technical e)"
proof (cases price_data)
  case None
  then show ?thesis by (simp add: analyze_technical_indicators_def)
next
  case (Some df)
  obtain e where "technical_try bands rest df = Inl e"
    using technical_try_raises by blast
  with Some show ?thesis by (auto simp: analyze_technical_indicators_def)
qed

lemma combined_signal_without_technical:
  assumes "technical_score t = 0" "technical_score t' = 0"
  shows "calculate_combined_signal t oc so timeframe = calculate_combined_signal t' oc so timeframe"
  using assms
  by (simp add: calculate_combined_signal_def combined_score_def positive_text_def
        negative_text_def mixed_text_def Let_def)

text \<open>
  Claim C9. For every price table (absent, short or long), every Bollinger library and
  every remainder of the analysis, \<open>_analyze_technical_indicators\<close> returns the signal
  Neutral with confidence 50 and without \<open>signal_score\<close>: a table of at least 30 rows
  reaches the tuple assignment of three names from \<open>calculate_bollinger_bands\<close>, which
  returns a dictionary of six keys or \<open>None\<close>, so the assignment raises and the handler
  answers. The technical term of the combined score is therefore 0, and what
  \<open>_calculate_combined_signal\<close> returns is what it returns for the dictionary of the
  short table: it depends on the on-chain result, the social result and the time
  frame only.
\<close>

theorem technical_always_neutral:
  "tech_overall_signal (analyze_technical_indicators bands rest price_data) = ''Neutral''
   \<and> tech_confidence (analyze_technical_indicators bands rest price_data) = 50
   \<and> tech_signal_score (analyze_technical_indicators bands rest price_data) = None
   \<and> combined_score (analyze_technical_indicators bands rest price_data) oc so timeframe
       = (case weights timeframe of (w_technical, w_onchain, w_social) \<Rightarrow>
            onchain_score oc * w_onchain + social_score so * w_social)
   \<and> calculate_combined_signal (analyze_technical_indicators bands rest price_data) oc so timeframe
       = calculate_combined_signal insufficient_technical oc so timeframe"
proof -
  let ?t = "analyze_technical_indicators bands rest price_data"
  have f: "tech_overall_signal ?t = ''Neutral'' \<and> tech_confidence ?t = 50
      \<and> tech_signal_score ?t = None"
    using analyze_technical_cases [of bands rest price_data]
    by (auto simp: insufficient_technical_def error_technical_def)
  then have z: "technical_score ?t = 0"
    by (simp add: technical_score_def get_or_def)
  have z': "technical_score insufficient_technical = 0"
    by (simp add: technical_score_def get_or_def insufficient_technical_def)
  have c: "combined_score ?t oc so timeframe
       = (case weights timeframe of (w_technical, w_onchain, w_social) \<Rightarrow>
            onchain_score oc * w_onchain + social_score so * w_social)"
    using z by (simp add: combined_score_def split: prod.splits)
  from f c combined_signal_without_technical [OF z z'] show ?thesis by simp
qed

subsection \<open>The agreement level\<close>

lemma fuse_Inr:
  assumes "fuse t_analysis symbol timeframe t oc so = Inr r"
  shows "\<exists>score conf pred expl oc_raw sentiment.
           calculate_combined_signal t oc so timeframe = Inr (score, conf, pred, expl)
         \<and> oc_score oc = Some oc_raw \<and> so_sentiment so = Some sentiment
         \<and> r = \<lparr>res_symbol = symbol, res_timeframe = timeframe, res_prediction = pred,
                res_confidence = conf, res_score = Some score, res_explanation = expl,
                res_agreement = agreement_level (source_signals t oc_raw sentiment),
                res_signals = Some (t, oc, so),
                res_analysis_time = Some t_analysis, res_error = None\<rparr>"
  using assms
  by (auto simp: fuse_def bind_err_Inr item_Inr split: prod.splits)

lemma agreement_level_three:
  "(agreement_level [a, b, c] = ''Strong'' \<longleftrightarrow>
      [a, b, c] = [''Bullish'', ''Bullish'', ''Bullish'']
    \<or> [a, b, c] = [''Bearish'', ''Bearish'', ''Bearish''])
 \<and> (agreement_level [a, b, c] = ''Moderate'' \<longleftrightarrow>
      agreement_level [a, b, c] \<noteq> ''Strong''
    \<and> (count_label ''Bullish'' [a, b, c] \<ge> 2 \<or> count_label ''Bearish'' [a, b, c] \<ge> 2))
 \<and> (agreement_level [a, b, c] = ''Weak'' \<longleftrightarrow>
      count_label ''Bullish'' [a, b, c] < 2 \<and> count_label ''Bearish'' [a, b, c] < 2)"
  by (auto simp: agreement_level_def count_label_def Let_def)

text \<open>
  Counterexample to claim C4 as stated. The analyzer is new, there is no price table,
  and every draw of the simulations is in the middle of its range: the on-chain score
  is 0 and the social score is -0.1. With the threshold of 3 on the common scale the
  three classifications are Neutral, Neutral, Neutral: they match, and the
  specification's agreement level is Strong. The result of \<open>analyze_all_signals\<close> says
  Weak.
\<close>

theorem agreement_all_neutral_is_weak:
  "res_signals (fst (analyze_all_signals no_bands no_rest (scripted quiet) noon init fresh
                      ''BTC'' None ''1d''))
     = Some (insufficient_technical, \<lparr>oc_score = Some 0\<rparr>,
             \<lparr>so_sentiment = Some ''Neutral'', so_score = Some (- (1 / 10)),
              so_agreement = Some ''Weak''\<rparr>)
   \<and> res_agreement (fst (analyze_all_signals no_bands no_rest (scripted quiet) noon init fresh
                          ''BTC'' None ''1d'')) = ''Weak''
   \<and> spec_agreement (technical_score insufficient_technical)
        (onchain_score \<lparr>oc_score = Some 0\<rparr>)
        (social_score \<lparr>so_sentiment = Some ''Neutral'', so_score = Some (- (1 / 10)),
                       so_agreement = Some ''Weak''\<rparr>)
      = ''Strong''"
  by code_simp

text \<open>
  Claim C4, amended. The agreement level is computed from three labels: the overall
  signal of the technical dictionary, the on-chain label taken from the raw on-chain
  score with the thresholds 20 and -20, and the sentiment label that the social
  analyzer reports. It is Strong if and only if the three labels are all Bullish or all
  Bearish; it is Moderate if and only if it is not Strong and at least two labels are
  Bullish or at least two are Bearish; it is Weak if and only if fewer than two are
  Bullish and fewer than two are Bearish. Every result that the fusion computes from a
  technical, an on-chain and a social dictionary carries the agreement level of the
  labels of these three dictionaries.
\<close>

theorem agreement_by_direction:
  "(agreement_level (source_signals t oc_raw sentiment) = ''Strong'' \<longleftrightarrow>
        (tech_overall_signal t = ''Bullish'' \<and> oc_raw > 20 \<and> sentiment = ''Bullish'')
      \<or> (tech_overall_signal t = ''Bearish'' \<and> oc_raw < - 20 \<and> sentiment = ''Bearish''))
   \<and> (agreement_level (source_signals t oc_raw sentiment) = ''Moderate'' \<longleftrightarrow>
        agreement_level (source_signals t oc_raw sentiment) \<noteq> ''Strong''
      \<and> (count_label ''Bullish'' (source_signals t oc_raw sentiment) \<ge> 2
         \<or> count_label ''Bearish'' (source_signals t oc_raw sentiment) \<ge> 2))
   \<and> (agreement_level (source_signals t oc_raw sentiment) = ''Weak'' \<longleftrightarrow>
        count_label ''Bullish'' (source_signals t oc_raw sentiment) < 2
      \<and> count_label ''Bearish'' (source_signals t oc_raw sentiment) < 2)
   \<and> (\<forall>r. fuse t_analysis symbol timeframe t oc so = Inr r \<longrightarrow>
          (\<exists>x s. oc_score oc = Some x \<and> so_sentiment so = Some s
                 \<and> res_signals r = Some (t, oc, so)
                 \<and> res_agreement r = agreement_level (source_signals t x s)))"
proof -
  obtain a b c where sig: "source_signals t oc_raw sentiment = [a, b, c]"
    and a: "a = tech_overall_signal t"
    and b: "b = (if oc_raw > 20 then ''Bullish'' else if oc_raw < - 20 then ''Bearish''
                 else ''Neutral'')"
    and c: "c = sentiment"
    by (simp add: source_signals_def)
  have strong: "[a, b, c] = [''Bullish'', ''Bullish'', ''Bullish'']
        \<or> [a, b, c] = [''Bearish'', ''Bearish'', ''Bearish'']
      \<longleftrightarrow> (tech_overall_signal t = ''Bullish'' \<and> oc_raw > 20 \<and> sentiment = ''Bullish'')
        \<or> (tech_overall_signal t = ''Bearish'' \<and> oc_raw < - 20 \<and> sentiment = ''Bearish'')"
    unfolding a b c by auto
  have res: "\<forall>r. fuse t_analysis symbol timeframe t oc so = Inr r \<longrightarrow>
          (\<exists>x s. oc_score oc = Some x \<and> so_sentiment so = Some s
                 \<and> res_signals r = Some (t, oc, so)
                 \<and> res_agreement r = agreement_level (source_signals t x s))"
    using fuse_Inr by fastforce
  from agreement_level_three [of a b c] strong res show ?thesis
    unfolding sig by blast
qed

text \<open>
  Witness for claim C4: a technical dictionary with the signal Bullish, an on-chain
  score of 50 and a bullish social sentiment. The three labels are Bullish, and the
  result that the fusion computes from the three dictionaries has the agreement level
  Strong.
\<close>

theorem agreement_by_direction_witness:
  "tech_overall_signal bullish_technical = ''Bullish'' \<and> (50 :: real) > 20
   \<and> agreement_level (source_signals bullish_technical 50 ''Bullish'') = ''Strong''
   \<and> (\<exists>r. fuse 1000 ''BTC'' ''1d'' bullish_technical \<lparr>oc_score = Some 50\<rparr>
             \<lparr>so_sentiment = Some ''Bullish'', so_score = Some (1 / 2),
              so_agreement = Some ''Strong''\<rparr> = Inr r
          \<and> res_agreement r = ''Strong'')"
proof -
  let ?oc = "\<lparr>oc_score = Some 50\<rparr>"
  let ?so = "\<lparr>so_sentiment = Some ''Bullish'', so_score = Some (1 / 2),
              so_agreement = Some ''Strong''\<rparr>"
  note A = agreement_by_direction [where t = bullish_technical and oc_raw = 50
      and sentiment = "''Bullish''" and t_analysis = 1000 and symbol = "''BTC''"
      and timeframe = "''1d''" and oc = ?oc and so = ?so]
  have h: "tech_overall_signal bullish_technical = ''Bullish''"
    by (simp add: bullish_technical_def)
  from A h have s: "agreement_level (source_signals bullish_technical 50 ''Bullish'') = ''Strong''"
    by simp
  have "map_sum id res_error (fuse 1000 ''BTC'' ''1d'' bullish_technical ?oc ?so) = Inr None"
    by code_simp
  then obtain r where r: "fuse 1000 ''BTC'' ''1d'' bullish_technical ?oc ?so = Inr r"
    by (cases "fuse 1000 ''BTC'' ''1d'' bullish_technical ?oc ?so") auto
  with A obtain x s' where "oc_score ?oc = Some x" "so_sentiment ?so = Some s'"
      "res_agreement r = agreement_level (source_signals bullish_technical x s')"
    by blast
  with s have "res_agreement r = ''Strong''" by simp
  with h s r show ?thesis by auto
qed

subsection \<open>The caches and the generator\<close>

text \<open>
  What each call leaves of the state it is given: the time to live, the entries under
  other keys, and everything when the lookup finds a fresh entry.
\<close>

lemma onchain_frame:
  assumes "get_onchain_analysis lib clk self glob symbol timeframe = (oc, self', glob')"
  shows "oc_cache_ttl self' = oc_cache_ttl self"
    and "k \<noteq> ''onchain_'' @ symbol @ ''_'' @ timeframe \<Longrightarrow> oc_cache self' k = oc_cache self k"
    and "NEWS_CACHE glob' = NEWS_CACHE glob"
    and "oc_get_cached_data self (now clk OnchainLookup) (''onchain_'' @ symbol @ ''_'' @ timeframe)
           \<noteq> None \<Longrightarrow> self' = self \<and> glob' = glob"
  using assms
  by (auto simp: get_onchain_analysis_def Let_def oc_set_cache_def
           split: option.splits prod.splits sum.splits)

lemma twitter_frame:
  assumes "get_twitter_sentiment lib clk self glob symbol = (d, self', glob')"
  shows "sa_cache_ttl self' = sa_cache_ttl self"
    and "k \<noteq> ''twitter_sentiment_'' @ symbol \<Longrightarrow> sa_cache self' k = sa_cache self k"
    and "NEWS_CACHE glob' = NEWS_CACHE glob"
  using assms
  by (auto simp: get_twitter_sentiment_def Let_def sa_set_cache_def
           split: option.splits prod.splits)

lemma reddit_frame:
  assumes "get_reddit_sentiment lib clk self glob symbol = (d, self', glob')"
  shows "sa_cache_ttl self' = sa_cache_ttl self"
    and "k \<noteq> ''reddit_sentiment_'' @ symbol \<Longrightarrow> sa_cache self' k = sa_cache self k"
    and "NEWS_CACHE glob' = NEWS_CACHE glob"
  using assms
  by (auto simp: get_reddit_sentiment_def Let_def sa_set_cache_def
           split: option.splits prod.splits)

lemma str_10: "str 10 = ''10''"
  by code_simp

lemma news_frame:
  assumes "get_news_sentiment lib clk glob symbol = (d, glob')"
    and "k \<noteq> ''news_'' @ symbol @ ''_10''"
  shows "NEWS_CACHE glob' k = NEWS_CACHE glob k"
  using assms
  by (auto simp: get_news_sentiment_def get_crypto_news_def Let_def str_10
           split: option.splits prod.splits if_splits)

lemma combined_frame:
  assumes "get_combined_social_sentiment lib clk self glob symbol = (so, self', glob')"
  shows "sa_cache_ttl self' = sa_cache_ttl self
      \<and> (\<forall>k. k \<noteq> ''twitter_sentiment_'' @ symbol \<longrightarrow> k \<noteq> ''reddit_sentiment_'' @ symbol
         \<longrightarrow> k \<noteq> ''combined_sentiment_'' @ symbol \<longrightarrow> sa_cache self' k = sa_cache self k)
      \<and> (\<forall>j. j \<noteq> ''news_'' @ symbol @ ''_10'' \<longrightarrow> NEWS_CACHE glob' j = NEWS_CACHE glob j)
      \<and> (sa_get_cached_data self (now clk CombinedLookup) (''combined_sentiment_'' @ symbol) \<noteq> None
         \<longrightarrow> self' = self \<and> glob' = glob)"
proof (cases "sa_get_cached_data self (now clk CombinedLookup) (''combined_sentiment_'' @ symbol)")
  case (Some d)
  with assms have "self' = self \<and> glob' = glob"
    by (auto simp: get_combined_social_sentiment_def)
  then show ?thesis by simp
next
  case None
  obtain tw self1 glob1 where tw: "get_twitter_sentiment lib clk self glob symbol = (tw, self1, glob1)"
    by (cases "get_twitter_sentiment lib clk self glob symbol") auto
  obtain rd self2 glob2 where rd: "get_reddit_sentiment lib clk self1 glob1 symbol = (rd, self2, glob2)"
    by (cases "get_reddit_sentiment lib clk self1 glob1 symbol") auto
  obtain nw glob3 where nw: "get_news_sentiment lib clk glob2 symbol = (nw, glob3)"
    by (cases "get_news_sentiment lib clk glob2 symbol") auto
  from assms None tw rd nw have g: "glob' = glob3"
    and s: "self' = self2
            \<or> (\<exists>t e. self' = sa_set_cache self2 t (''combined_sentiment_'' @ symbol) e)"
    by (auto simp: get_combined_social_sentiment_def split: sum.splits)
  from s have ttl: "sa_cache_ttl self' = sa_cache_ttl self2"
    and other: "\<forall>k. k \<noteq> ''combined_sentiment_'' @ symbol \<longrightarrow> sa_cache self' k = sa_cache self2 k"
    by (auto simp: sa_set_cache_def)
  from twitter_frame [OF tw] reddit_frame [OF rd] news_frame [OF nw] g ttl other None
  show ?thesis by simp
qed

lemma analysis_try_frame:
  assumes "analysis_try bands rest lib clk self glob symbol price_data timeframe = (res, self', glob')"
  shows "\<exists>oc so oca sa glob1.
           get_onchain_analysis lib clk (onchain_analyzer self) glob symbol
               (if timeframe = ''1h'' \<or> timeframe = ''1d'' then ''24h'' else ''7d'') = (oc, oca, glob1)
         \<and> get_combined_social_sentiment lib clk (sentiment_analyzer self) glob1 symbol
               = (so, sa, glob')
         \<and> res = fuse (now clk MultiAnalysis) symbol timeframe
                   (analyze_technical_indicators bands rest price_data) oc so
         \<and> self' = self\<lparr>onchain_analyzer := oca, sentiment_analyzer := sa\<rparr>"
  using assms
  by (auto simp: analysis_try_def Let_def split: prod.splits)

text \<open>
  Counterexample to claim C8 as stated. A call of \<open>analyze_all_signals\<close> on a new
  analyzer, in a process that has stored no news, leaves an entry in the analyzer's
  cache, in the cache of its on-chain analyzer, three entries in the cache of its
  sentiment analyzer and one in \<open>NEWS_CACHE\<close>, and it leaves the generator of the
  process in another state: the state that later calls share has changed.
\<close>

theorem analysis_writes_cache:
  "cache init ''multi_signal_BTC_1d'' = None
   \<and> oc_cache (onchain_analyzer init) ''onchain_BTC_24h'' = None
   \<and> sa_cache (sentiment_analyzer init) ''twitter_sentiment_BTC'' = None
   \<and> sa_cache (sentiment_analyzer init) ''reddit_sentiment_BTC'' = None
   \<and> sa_cache (sentiment_analyzer init) ''combined_sentiment_BTC'' = None
   \<and> NEWS_CACHE fresh ''news_BTC_10'' = None
   \<and> rng fresh = [1 / 4]
   \<and> (case analyze_all_signals no_bands no_rest (scripted quiet) noon init fresh ''BTC'' None ''1d''
       of (r, self', glob') \<Rightarrow>
            cache self' ''multi_signal_BTC_1d'' \<noteq> None
          \<and> oc_cache (onchain_analyzer self') ''onchain_BTC_24h'' \<noteq> None
          \<and> sa_cache (sentiment_analyzer self') ''twitter_sentiment_BTC'' \<noteq> None
          \<and> sa_cache (sentiment_analyzer self') ''reddit_sentiment_BTC'' \<noteq> None
          \<and> sa_cache (sentiment_analyzer self') ''combined_sentiment_BTC'' \<noteq> None
          \<and> NEWS_CACHE glob' ''news_BTC_10'' \<noteq> None
          \<and> rng glob' = [])"
  by code_simp

text \<open>
  Claim C8, amended. \<open>analyze_all_signals\<close> reads and writes state that calls share,
  and no more than this: the entry of the analyzer's cache under the key
  \<open>multi_signal_<symbol>_<timeframe>\<close>; the entry of the cache of its on-chain analyzer
  under \<open>onchain_<symbol>_24h\<close> (or \<open>7d\<close>); the entries of the cache of its sentiment
  analyzer under \<open>twitter_sentiment_<symbol>\<close>, \<open>reddit_sentiment_<symbol>\<close> and
  \<open>combined_sentiment_<symbol>\<close>; the entry of \<open>NEWS_CACHE\<close> under \<open>news_<symbol>_10\<close>; and
  the state of the generator. The three times to live and every other entry of the four
  caches are as before. When the lookup in the analyzer's cache finds a fresh entry,
  the stored result is returned and nothing changes. When it finds none, a result
  without error is stored under the key with the time of the write, and a result with
  an error is not stored. When the lookups of the on-chain analyzer and of the
  sentiment analyzer both find a fresh entry, the two analyzers, \<open>NEWS_CACHE\<close> and the
  generator are as before. (\<open>_analyze_technical_indicators\<close> and
  \<open>_calculate_combined_signal\<close> take no analyzer and return none.)
\<close>

theorem cache_effect:
  assumes "analyze_all_signals bands rest lib clk self glob symbol price_data timeframe
             = (r, self', glob')"
  shows "cache_ttl self' = cache_ttl self
       \<and> oc_cache_ttl (onchain_analyzer self') = oc_cache_ttl (onchain_analyzer self)
       \<and> sa_cache_ttl (sentiment_analyzer self') = sa_cache_ttl (sentiment_analyzer self)
       \<and> (\<forall>k. k \<noteq> ''multi_signal_'' @ symbol @ ''_'' @ timeframe \<longrightarrow> cache self' k = cache self k)
       \<and> (\<forall>k. k \<noteq> ''onchain_'' @ symbol @ ''_''
                     @ (if timeframe = ''1h'' \<or> timeframe = ''1d'' then ''24h'' else ''7d'')
              \<longrightarrow> oc_cache (onchain_analyzer self') k = oc_cache (onchain_analyzer self) k)
       \<and> (\<forall>k. k \<noteq> ''twitter_sentiment_'' @ symbol \<longrightarrow> k \<noteq> ''reddit_sentiment_'' @ symbol
              \<longrightarrow> k \<noteq> ''combined_sentiment_'' @ symbol
              \<longrightarrow> sa_cache (sentiment_analyzer self') k = sa_cache (sentiment_analyzer self) k)
       \<and> (\<forall>k. k \<noteq> ''news_'' @ symbol @ ''_10'' \<longrightarrow> NEWS_CACHE glob' k = NEWS_CACHE glob k)
       \<and> (\<forall>d. get_cached_data self (now clk MultiLookup) (''multi_signal_'' @ symbol @ ''_'' @ timeframe)
                = Some d
              \<longrightarrow> r = d \<and> self' = self \<and> glob' = glob)
       \<and> (get_cached_data self (now clk MultiLookup) (''multi_signal_'' @ symbol @ ''_'' @ timeframe)
            = None
          \<longrightarrow> (res_error r = None
                \<longrightarrow> cache self' (''multi_signal_'' @ symbol @ ''_'' @ timeframe)
                      = Some (now clk MultiStore, r))
              \<and> (res_error r \<noteq> None
                \<longrightarrow> cache self' (''multi_signal_'' @ symbol @ ''_'' @ timeframe)
                      = cache self (''multi_signal_'' @ symbol @ ''_'' @ timeframe)))
       \<and> (oc_get_cached_data (onchain_analyzer self) (now clk OnchainLookup)
              (''onchain_'' @ symbol @ ''_''
                 @ (if timeframe = ''1h'' \<or> timeframe = ''1d'' then ''24h'' else ''7d'')) \<noteq> None
          \<and> sa_get_cached_data (sentiment_analyzer self) (now clk CombinedLookup)
              (''combined_sentiment_'' @ symbol) \<noteq> None
          \<longrightarrow> glob' = glob \<and> onchain_analyzer self' = onchain_analyzer self
              \<and> sentiment_analyzer self' = sentiment_analyzer self)"
proof (cases "get_cached_data self (now clk MultiLookup) (''multi_signal_'' @ symbol @ ''_'' @ timeframe)")
  case (Some d)
  with assms have "self' = self" "r = d" "glob' = glob"
    by (simp_all add: analyze_all_signals_def)
  with Some show ?thesis by simp
next
  case None
  let ?key = "''multi_signal_'' @ symbol @ ''_'' @ timeframe"
  let ?tf = "if timeframe = ''1h'' \<or> timeframe = ''1d'' then ''24h'' else ''7d''"
  obtain res self1 glob1 where
    at: "analysis_try bands rest lib clk self glob symbol price_data timeframe = (res, self1, glob1)"
    by (cases "analysis_try bands rest lib clk self glob symbol price_data timeframe") auto
  from analysis_try_frame [OF at] obtain oc so oca sa glob0 where
    oc: "get_onchain_analysis lib clk (onchain_analyzer self) glob symbol ?tf = (oc, oca, glob0)"
    and so: "get_combined_social_sentiment lib clk (sentiment_analyzer self) glob0 symbol
               = (so, sa, glob1)"
    and res: "res = fuse (now clk MultiAnalysis) symbol timeframe
                     (analyze_technical_indicators bands rest price_data) oc so"
    and s1: "self1 = self\<lparr>onchain_analyzer := oca, sentiment_analyzer := sa\<rparr>"
    by blast
  note F = onchain_frame [OF oc]
  note G = combined_frame [OF so]
  have g: "glob' = glob1"
    using assms None at by (auto simp: analyze_all_signals_def split: sum.splits)
  have main: "(res_error r = None \<longrightarrow> cache self' ?key = Some (now clk MultiStore, r))
      \<and> (res_error r \<noteq> None \<longrightarrow> cache self' ?key = cache self ?key)
      \<and> (\<forall>k. k \<noteq> ?key \<longrightarrow> cache self' k = cache self k)
      \<and> cache_ttl self' = cache_ttl self
      \<and> onchain_analyzer self' = oca \<and> sentiment_analyzer self' = sa"
  proof (cases res)
    case (Inl e)
    with assms None at have "r = error_result symbol timeframe e" "self' = self1"
      by (auto simp: analyze_all_signals_def)
    with s1 show ?thesis by (simp add: error_result_def)
  next
    case (Inr result)
    with assms None at have r: "r = result"
      and s: "self' = set_cache self1 (now clk MultiStore) ?key r"
      by (auto simp: analyze_all_signals_def)
    from res Inr have "fuse (now clk MultiAnalysis) symbol timeframe
        (analyze_technical_indicators bands rest price_data) oc so = Inr result"
      by simp
    from fuse_Inr [OF this] r have "res_error r = None"
      by auto
    with s s1 show ?thesis by (simp add: set_cache_def)
  qed
  have c1: "cache_ttl self' = cache_ttl self" using main by simp
  have c2: "oc_cache_ttl (onchain_analyzer self') = oc_cache_ttl (onchain_analyzer self)"
    using main F(1) by simp
  have c3: "sa_cache_ttl (sentiment_analyzer self') = sa_cache_ttl (sentiment_analyzer self)"
    using main G by simp
  have c4: "\<forall>k. k \<noteq> ?key \<longrightarrow> cache self' k = cache self k" using main by simp
  have c5: "\<forall>k. k \<noteq> ''onchain_'' @ symbol @ ''_'' @ ?tf
              \<longrightarrow> oc_cache (onchain_analyzer self') k = oc_cache (onchain_analyzer self) k"
    using main F(2) by simp
  have c6: "\<forall>k. k \<noteq> ''twitter_sentiment_'' @ symbol \<longrightarrow> k \<noteq> ''reddit_sentiment_'' @ symbol
              \<longrightarrow> k \<noteq> ''combined_sentiment_'' @ symbol
              \<longrightarrow> sa_cache (sentiment_analyzer self') k = sa_cache (sentiment_analyzer self) k"
    using main G by simp
  have c7: "\<forall>k. k \<noteq> ''news_'' @ symbol @ ''_10'' \<longrightarrow> NEWS_CACHE glob' k = NEWS_CACHE glob k"
    using g G F(3) by simp
  have c8: "\<forall>d. get_cached_data self (now clk MultiLookup) ?key = Some d
              \<longrightarrow> r = d \<and> self' = self \<and> glob' = glob"
    using None by simp
  have c9: "get_cached_data self (now clk MultiLookup) ?key = None
          \<longrightarrow> (res_error r = None \<longrightarrow> cache self' ?key = Some (now clk MultiStore, r))
              \<and> (res_error r \<noteq> None \<longrightarrow> cache self' ?key = cache self ?key)"
    using main by simp
  have c10: "oc_get_cached_data (onchain_analyzer self) (now clk OnchainLookup)
              (''onchain_'' @ symbol @ ''_'' @ ?tf) \<noteq> None
          \<and> sa_get_cached_data (sentiment_analyzer self) (now clk CombinedLookup)
              (''combined_sentiment_'' @ symbol) \<noteq> None
          \<longrightarrow> glob' = glob \<and> onchain_analyzer self' = onchain_analyzer self
              \<and> sentiment_analyzer self' = sentiment_analyzer self"
  proof (intro impI, elim conjE)
    assume h1: "oc_get_cached_data (onchain_analyzer self) (now clk OnchainLookup)
              (''onchain_'' @ symbol @ ''_'' @ ?tf) \<noteq> None"
      and h2: "sa_get_cached_data (sentiment_analyzer self) (now clk CombinedLookup)
              (''combined_sentiment_'' @ symbol) \<noteq> None"
    from F(4) [OF h1] have "oca = onchain_analyzer self" "glob0 = glob" by simp_all
    moreover from G h2 have "sa = sentiment_analyzer self" "glob1 = glob0" by simp_all
    ultimately show "glob' = glob \<and> onchain_analyzer self' = onchain_analyzer self
              \<and> sentiment_analyzer self' = sentiment_analyzer self"
      using main g by simp
  qed
  from c1 c2 c3 c4 c5 c6 c7 c8 c9 c10 show ?thesis by blast
qed

text \<open>
  Witness for claim C8: the call of the counterexample. The lookup finds nothing and
  the result has no error, so it is stored under \<open>multi_signal_BTC_1d\<close> with the time
  of the write; the entries for ETH in the four caches are as before. A second call
  for the same symbol and time frame, now with the other script, finds the entry,
  returns the first result and changes nothing.
\<close>

theorem cache_effect_witness:
  "\<exists>r self' glob'.
     analyze_all_signals no_bands no_rest (scripted quiet) noon init fresh ''BTC'' None ''1d''
       = (r, self', glob')
   \<and> get_cached_data init (now noon MultiLookup) (''multi_signal_'' @ ''BTC'' @ ''_'' @ ''1d'') = None
   \<and> res_error r = None
   \<and> cache self' ''multi_signal_BTC_1d'' = Some (1002, r)
   \<and> cache self' ''multi_signal_ETH_1d'' = None
   \<and> oc_cache (onchain_analyzer self') ''onchain_ETH_24h'' = None
   \<and> sa_cache (sentiment_analyzer self') ''combined_sentiment_ETH'' = None
   \<and> NEWS_CACHE glob' ''news_ETH_10'' = None
   \<and> get_cached_data self' (now noon MultiLookup) (''multi_signal_'' @ ''BTC'' @ ''_'' @ ''1d'')
       = Some r
   \<and> analyze_all_signals no_bands no_rest (scripted keen) noon self' glob' ''BTC'' None ''1d''
       = (r, self', glob')"
proof -
  let ?call = "analyze_all_signals no_bands no_rest (scripted quiet) noon init fresh
                 ''BTC'' None ''1d''"
  obtain r self' glob' where c: "?call = (r, self', glob')"
    by (cases ?call) auto
  have "res_error (fst ?call) = None" by code_simp
  with c have e: "res_error r = None" by simp
  have miss: "get_cached_data init (now noon MultiLookup) (''multi_signal_'' @ ''BTC'' @ ''_'' @ ''1d'')
      = None"
    by (simp add: get_cached_data_def init_def)
  have t: "now noon MultiStore = 1002" "now noon MultiLookup = 1000" by (simp_all add: noon_def)
  note T = cache_effect [OF c]
  from T miss e t have stored: "cache self' ''multi_signal_BTC_1d'' = Some (1002, r)" by simp
  from T have o1: "cache self' ''multi_signal_ETH_1d'' = None" by (simp add: init_def)
  from T have o2: "oc_cache (onchain_analyzer self') ''onchain_ETH_24h'' = None"
    by (simp add: init_def oc_init_def)
  from T have o3: "sa_cache (sentiment_analyzer self') ''combined_sentiment_ETH'' = None"
    by (simp add: init_def sa_init_def)
  from T have o4: "NEWS_CACHE glob' ''news_ETH_10'' = None" by (simp add: fresh_def)
  from T have "cache_ttl self' = 1800" by (simp add: init_def)
  with stored t have hit: "get_cached_data self' (now noon MultiLookup)
      (''multi_signal_'' @ ''BTC'' @ ''_'' @ ''1d'') = Some r"
    by (simp add: get_cached_data_def)
  let ?again = "analyze_all_signals no_bands no_rest (scripted keen) noon self' glob'
                  ''BTC'' None ''1d''"
  obtain r2 s2 g2 where c2: "?again = (r2, s2, g2)"
    by (cases ?again) auto
  from cache_effect [OF c2] hit have "r2 = r \<and> s2 = self' \<and> g2 = glob'" by simp
  with c2 have again: "?again = (r, self', glob')" by simp
  from c miss e stored o1 o2 o3 o4 hit again show ?thesis by blast
qed

section \<open>Properties of the feature generator\<close>

lemma fillna_defined: "fillna v x \<noteq> None"
  by (cases x) simp_all

lemma fill_column_defined: "None \<notin> set (fill_column xs)"
proof
  assume "None \<in> set (fill_column xs)"
  then obtain x where "None = fillna 0 x" by (auto simp: fill_column_def)
  then show False using fillna_defined [of 0 x] by simp
qed

lemma length_bfill: "length (bfill xs) = length xs"
  by (induction xs rule: bfill.induct) (auto split: list.splits)

lemma length_ffill_from: "length (ffill_from p xs) = length xs"
  by (induction p xs rule: ffill_from.induct) auto

lemma length_fill_column: "length (fill_column xs) = length xs"
  by (simp add: fill_column_def ffill_def length_ffill_from length_bfill)

text \<open>The three fills change undefined cells only.\<close>

lemma bfill_keeps: "i < length xs \<Longrightarrow> xs ! i = Some v \<Longrightarrow> bfill xs ! i = Some v"
proof (induction xs arbitrary: i rule: bfill.induct)
  case 1
  then show ?case by simp
next
  case (2 w xs)
  then show ?case by (cases i) auto
next
  case (3 xs)
  then obtain j where j: "i = Suc j" by (cases i) auto
  with 3 have "bfill xs ! j = Some v" by simp
  with j show ?case by (auto split: list.splits simp: nth_Cons')
qed

lemma ffill_from_keeps: "i < length xs \<Longrightarrow> xs ! i = Some v \<Longrightarrow> ffill_from p xs ! i = Some v"
proof (induction p xs arbitrary: i rule: ffill_from.induct)
  case (1 prev)
  then show ?case by simp
next
  case (2 prev w xs)
  then show ?case by (cases i) auto
next
  case (3 prev xs)
  then show ?case by (cases i) auto
qed

lemma fill_column_keeps:
  assumes "i < length xs" "xs ! i = Some v"
  shows "fill_column xs ! i = Some v"
proof -
  have "bfill xs ! i = Some v" using assms by (rule bfill_keeps)
  then have "ffill (bfill xs) ! i = Some v"
    using assms(1) by (simp add: ffill_def ffill_from_keeps length_bfill)
  then show ?thesis
    using assms(1) by (simp add: fill_column_def ffill_def length_ffill_from length_bfill)
qed

lemma no_nan_filled: "no_nan (map_columns fill_column data)"
  by (auto simp: no_nan_def map_columns_def list_all_iff fill_column_defined)

lemma len_map_columns: "len (map_columns f data) = len data"
  by (simp add: len_def map_columns_def)

text \<open>Setting a column, and what the loop over the required columns does.\<close>

lemma len_set_column: "len (set_column df c xs) = len df"
  by (simp add: len_def set_column_def)

lemma keys_set_column: "fst ` set (columns (set_column df c xs)) = insert c (fst ` set (columns df))"
  by (auto simp: set_column_def image_iff split: if_splits) force+

lemma map_of_replace:
  "map_of (map (\<lambda>(k, v). if k = c then (k, xs) else (k, v)) l) c' =
     (if c' = c then (if c \<in> fst ` set l then Some xs else None) else map_of l c')"
proof (induction l)
  case Nil
  then show ?case by simp
next
  case (Cons p l)
  have "(c, b) \<in> set l \<Longrightarrow> c \<in> fst ` set l" for b by force
  with Cons show ?case by (cases p) auto
qed

lemma column_set_column:
  "column (set_column df c xs) c' = (if c' = c then Inr xs else column df c')"
proof (cases "c \<in> fst ` set (columns df)")
  case True
  then show ?thesis
    by (simp add: column_def set_column_def map_of_replace)
next
  case False
  then have "map_of (columns df) c = None"
    by (simp add: map_of_eq_None_iff)
  with False show ?thesis
    by (auto simp: column_def set_column_def map_add_def split: option.splits)
qed

lemma column_present: "column df c = Inr xs \<Longrightarrow> c \<in> fst ` set (columns df)"
  by (auto simp: column_def split: option.splits dest: map_of_SomeD intro: rev_image_eqI)

lemma add_missing_effect:
  "add_missing data cols = Inr d \<Longrightarrow>
     len d = len data
   \<and> fst ` set (columns d) = fst ` set (columns data) \<union> set cols
   \<and> (\<forall>c. c \<in> fst ` set (columns data) \<longrightarrow> column d c = column data c)
   \<and> (\<forall>c \<in> set cols. c \<notin> fst ` set (columns data) \<longrightarrow>
         column d c = (if c = ''Volume'' then Inr (replicate (len data) (Some 0))
                       else column data ''Close''))"
proof (induction cols arbitrary: data)
  case Nil
  then show ?case by simp
next
  case (Cons col cols)
  show ?case
  proof (cases "col \<in> fst ` set (columns data)")
    case True
    with Cons.prems have "add_missing data cols = Inr d" by simp
    from Cons.IH [OF this] True show ?thesis by auto
  next
    case False
    show ?thesis
    proof (cases "col = ''Volume''")
      case True
      let ?data' = "set_column data col (replicate (len data) (Some 0))"
      from False True Cons.prems have "add_missing ?data' cols = Inr d" by simp
      from Cons.IH [OF this] False True show ?thesis
        by (auto simp: len_set_column keys_set_column column_set_column)
    next
      case notvol: False
      from False notvol Cons.prems obtain close where
        close: "column data ''Close'' = Inr close"
        and rec: "add_missing (set_column data col close) cols = Inr d"
        by (cases "column data ''Close''") auto
      from close have "''Close'' \<in> fst ` set (columns data)" by (rule column_present)
      with False have ne: "col \<noteq> ''Close''" by auto
      from Cons.IH [OF rec] False notvol close ne show ?thesis
        by (auto simp: len_set_column keys_set_column column_set_column)
    qed
  qed
qed

text \<open>
  Counterexample to claim C6 as stated. The table has one row, a Close price and a NaN
  Volume; a computation of the feature stage raises. \<open>generate_features\<close> returns the
  table as it was received, with the undefined cell.
\<close>

theorem generate_features_returns_input_on_error:
  "generate_features failing_stage gappy_table = gappy_table
   \<and> \<not> no_nan (generate_features failing_stage gappy_table)"
  by (simp add: generate_features_def failing_stage_def gappy_table_def required_cols_def
        set_column_def column_def len_def no_nan_def)

text \<open>
  Claim C6, amended. When no computation of \<open>generate_features\<close> raises, its result is
  the table of the feature stage with every column back-filled, then forward-filled,
  then zero-filled: it has no undefined cell and as many rows as that table. When a
  computation raises, the result is the input table, unchanged. The required columns
  are added before the feature stage runs: adding them fails only for a table without
  a Close column; otherwise the five required columns are present, the columns of the
  input are untouched, a missing Volume is a column of zeros and a missing Open, High
  or Low is the Close column.
\<close>

theorem generate_features_filled:
  "(case bind_err (add_missing df required_cols) features of
      Inl e \<Rightarrow> generate_features features df = df
    | Inr data \<Rightarrow>
        generate_features features df = map_columns fill_column data
      \<and> no_nan (generate_features features df)
      \<and> len (generate_features features df) = len data)
   \<and> (case add_missing df required_cols of
        Inl e \<Rightarrow> ''Close'' \<notin> fst ` set (columns df)
      | Inr d \<Rightarrow>
          len d = len df
        \<and> set required_cols \<subseteq> fst ` set (columns d)
        \<and> (\<forall>c. c \<in> fst ` set (columns df) \<longrightarrow> column d c = column df c)
        \<and> (''Volume'' \<notin> fst ` set (columns df) \<longrightarrow>
             column d ''Volume'' = Inr (replicate (len df) (Some 0)))
        \<and> (\<forall>c \<in> {''Open'', ''High'', ''Low''}. c \<notin> fst ` set (columns df) \<longrightarrow>
             column d c = column df ''Close''))"
proof -
  have a: "case bind_err (add_missing df required_cols) features of
      Inl e \<Rightarrow> generate_features features df = df
    | Inr data \<Rightarrow>
        generate_features features df = map_columns fill_column data
      \<and> no_nan (generate_features features df)
      \<and> len (generate_features features df) = len data"
    by (simp add: generate_features_def no_nan_filled len_map_columns split: sum.splits)
  have b: "case add_missing df required_cols of
        Inl e \<Rightarrow> ''Close'' \<notin> fst ` set (columns df)
      | Inr d \<Rightarrow>
          len d = len df
        \<and> set required_cols \<subseteq> fst ` set (columns d)
        \<and> (\<forall>c. c \<in> fst ` set (columns df) \<longrightarrow> column d c = column df c)
        \<and> (''Volume'' \<notin> fst ` set (columns df) \<longrightarrow>
             column d ''Volume'' = Inr (replicate (len df) (Some 0)))
        \<and> (\<forall>c \<in> {''Open'', ''High'', ''Low''}. c \<notin> fst ` set (columns df) \<longrightarrow>
             column d c = column df ''Close'')"
  proof (cases "add_missing df required_cols")
    case (Inl e)
    have "''Close'' \<notin> fst ` set (columns df)"
    proof
      assume c: "''Close'' \<in> fst ` set (columns df)"
      then obtain close where "column df ''Close'' = Inr close"
        by (cases "column df ''Close''")
           (auto simp: column_def map_of_eq_None_iff split: option.splits)
      then have "\<exists>d. add_missing df required_cols = Inr d"
        by (simp add: required_cols_def column_set_column keys_set_column c)
      with Inl show False by simp
    qed
    with Inl show ?thesis by simp
  next
    case (Inr d)
    from add_missing_effect [OF Inr] Inr show ?thesis
      by (auto simp: required_cols_def)
  qed
  from a b show ?thesis by blast
qed

text \<open>
  Witness for claim C6: a table of three rows with a Close column only, whose first and
  last Close are NaN, and a feature stage that adds nothing. Open, High and Low are
  copies of Close, Volume is 0, and the fills leave 7 everywhere in the price columns.
\<close>

theorem generate_features_filled_witness:
  "add_missing close_only required_cols \<noteq> Inl KeyError
   \<and> generate_features no_features close_only =
       \<lparr>index = [0, 1, 2],
        columns = [(''Close'', [Some 7, Some 7, Some 7]), (''Open'', [Some 7, Some 7, Some 7]),
                   (''High'', [Some 7, Some 7, Some 7]), (''Low'', [Some 7, Some 7, Some 7]),
                   (''Volume'', [Some 0, Some 0, Some 0])]\<rparr>
   \<and> no_nan (generate_features no_features close_only)"
proof -
  have e: "bind_err (add_missing close_only required_cols) no_features =
      Inr \<lparr>index = [0, 1, 2],
        columns = [(''Close'', [None, Some 7, None]), (''Open'', [None, Some 7, None]),
                   (''High'', [None, Some 7, None]), (''Low'', [None, Some 7, None]),
                   (''Volume'', [Some 0, Some 0, Some 0])]\<rparr>"
    by (simp add: close_only_def required_cols_def set_column_def column_def len_def
          no_features_def)
  have m: "add_missing close_only required_cols \<noteq> Inl KeyError"
    using e by (cases "add_missing close_only required_cols") auto
  note A = generate_features_filled [where df = close_only and features = no_features,
             THEN conjunct1, unfolded e sum.case]
  from A have n: "no_nan (generate_features no_features close_only)" by blast
  from A have "generate_features no_features close_only = map_columns fill_column
       \<lparr>index = [0, 1, 2],
        columns = [(''Close'', [None, Some 7, None]), (''Open'', [None, Some 7, None]),
                   (''High'', [None, Some 7, None]), (''Low'', [None, Some 7, None]),
                   (''Volume'', [Some 0, Some 0, Some 0])]\<rparr>"
    by (rule conjunct1)
  then have "generate_features no_features close_only =
       \<lparr>index = [0, 1, 2],
        columns = [(''Close'', [Some 7, Some 7, Some 7]), (''Open'', [Some 7, Some 7, Some 7]),
                   (''High'', [Some 7, Some 7, Some 7]), (''Low'', [Some 7, Some 7, Some 7]),
                   (''Volume'', [Some 0, Some 0, Some 0])]\<rparr>"
    by (simp add: map_columns_def fill_column_def ffill_def)
  with m n show ?thesis by simp
qed


section \<open>Properties of the backtest harness\<close>

lemma walk_length: "walk body items acc = Inr ts \<Longrightarrow> length ts = length acc + length items"
  by (induction items arbitrary: acc) (auto split: sum.splits prod.splits)

lemma summarize_num_trades: "summarize s p k ts = Inr r \<Longrightarrow> num_trades r = length ts"
  by (auto simp: summarize_def Let_def bind_err_Inr split: if_splits)

text \<open>
  Whenever a report is returned, it counts one trade for every position from 30 up to
  the length of the feature table minus the prediction interval.
\<close>

lemma run_backtest_num_trades:
  assumes "run_backtest download features ensemble rsi symbol period k = Inr r"
  shows "\<exists>data. download (normalize_symbol symbol) period = Inr data
           \<and> num_trades r = nat (int (len (generate_features features data)) - k) - 30"
proof -
  from assms obtain data ts where
    d: "download (normalize_symbol symbol) period = Inr data"
    and w: "walk (step features ensemble rsi (generate_features features data) k)
              (range_from 30 (int (len (generate_features features data)) - k)) [] = Inr ts"
    and s: "summarize (normalize_symbol symbol) period k ts = Inr r"
    by (auto simp: run_backtest_def Let_def split: if_splits sum.splits)
  from walk_length [OF w] summarize_num_trades [OF s] d show ?thesis
    by (simp add: range_from_def)
qed

text \<open>
  Claim C1, at a history of 40 bars with the prediction interval 7, where the main path
  of the predictor raises at every position and the rule-based predictor answers. The
  claim gives \<open>(40 - 30 - 7) div 3 = 1\<close> trade. The report counts 3: the loop visits the
  positions 30, 31 and 32, because the \<open>for\<close> statement takes the next item of the range
  whatever \<open>i += 3\<close> has left in \<open>i\<close>.
\<close>

theorem backtest_one_trade_per_bar:
  "(case run_backtest (fetch (history 40)) no_features (failing_stage :: unit ensemble_stage)
           no_rsi ''BTC'' ''1y'' 7
    of Inl e \<Rightarrow> None | Inr r \<Rightarrow> Some (num_trades r, map date (trades r))) = Some (3, [30, 31, 32])
   \<and> (len (history 40) - 30 - 7) div 3 = 1"
  by code_simp

text \<open>
  When the main path of \<open>enhanced_prediction\<close> completes at a position of the walk, it
  returns four values; the assignment to three names raises ValueError, and the walk
  ends there with the exception.
\<close>

lemma step_raises_on_four_values:
  assumes "ensemble (generate_features features (head_rows (i + 1) enhanced_data)) = Inr v"
    and "30 \<le> len (head_rows (i + 1) enhanced_data)"
    and "iloc_cell enhanced_data (int i + prediction_interval) ''Close'' = Inr future"
    and "iloc_cell (head_rows (i + 1) enhanced_data) (- 1) ''Close'' = Inr current"
  shows "step features ensemble rsi enhanced_data prediction_interval i = Inl ValueError"
    and "walk (step features ensemble rsi enhanced_data prediction_interval) (i # items) acc
           = Inl ValueError"
proof -
  obtain p c r d where v: "v = (p, c, r, d)" by (cases v) auto
  with assms(1,2) have "enhanced_prediction features ensemble rsi
      (Some (head_rows (i + 1) enhanced_data)) = Tuple4 p c r d"
    by (simp add: enhanced_prediction_def)
  with assms(3,4) show s: "step features ensemble rsi enhanced_data prediction_interval i
      = Inl ValueError"
    by (simp add: step_def Let_def)
  then show "walk (step features ensemble rsi enhanced_data prediction_interval) (i # items) acc
           = Inl ValueError"
    by simp
qed

text \<open>
  Claim C2, on the history of 40 bars with the prediction interval 7, where the main
  path of the predictor completes. The claim says that a prediction call that
  misbehaves never aborts the walk and that a report is still returned. At the first
  position, 30, \<open>enhanced_prediction\<close> returns the four values of its last line, although
  its documentation and every caller expect three; the assignment to three names in the
  body of the loop raises ValueError, nothing inside the loop catches it, and
  \<open>run_backtest\<close> answers with the failure and the status 500: no step is treated as
  Neutral or skipped, the remaining positions are not visited and there is no report.
\<close>

theorem backtest_aborts_on_four_values:
  "enhanced_prediction no_features bullish_ensemble no_rsi
       (Some (head_rows (30 + 1) (generate_features no_features (history 40))))
     = Tuple4 ''Bullish'' 80 [Text ''MACD above signal line''] ()
   \<and> step no_features bullish_ensemble no_rsi (generate_features no_features (history 40)) 7 30
     = Inl ValueError
   \<and> run_backtest (fetch (history 40)) no_features bullish_ensemble no_rsi ''BTC'' ''1y'' 7
     = Inl (BacktestFailed ValueError, 500)"
  by code_simp

text \<open>
  When the main path of \<open>enhanced_prediction\<close> raises at a position of the walk,
  \<open>enhanced_prediction\<close> itself absorbs the exception and returns the three values of
  the rule-based predictor. The position is then recorded as a trade with the label,
  confidence and reason of the rule-based predictor, and the walk goes on with the next
  position of the range.
\<close>

lemma internal_failure_falls_back:
  assumes ens: "ensemble (generate_features features (head_rows (i + 1) enhanced_data)) = Inl e"
    and fut: "iloc_cell enhanced_data (int i + prediction_interval) ''Close'' = Inr future"
    and cur: "iloc_cell (head_rows (i + 1) enhanced_data) (- 1) ''Close'' = Inr current"
    and rb: "rule_based_prediction rsi (Some (head_rows (i + 1) enhanced_data)) = (p, c, r)"
  shows "enhanced_prediction features ensemble rsi (Some (head_rows (i + 1) enhanced_data))
           = Tuple3 p c r
       \<and> (\<exists>t. step features ensemble rsi enhanced_data prediction_interval i = Inr (t, i + 3)
              \<and> prediction t = p \<and> confidence t = c \<and> reason t = r
              \<and> walk (step features ensemble rsi enhanced_data prediction_interval) (i # items) acc
                 = walk (step features ensemble rsi enhanced_data prediction_interval)
                     items (acc @ [t]))"
proof -
  let ?slice = "head_rows (i + 1) enhanced_data"
  have ep: "enhanced_prediction features ensemble rsi (Some ?slice) = Tuple3 p c r"
    using ens rb by (simp add: enhanced_prediction_def fallback_def)
  from cur have "index ?slice \<noteq> []"
    by (auto simp: iloc_cell_def Let_def len_def split: if_splits)
  then obtain stamp where st: "last_stamp ?slice = Inr stamp"
    by (simp add: last_stamp_def)
  let ?t = "\<lparr>date = stamp, prediction = p, confidence = c, price = current,
              future_price = future,
              actual_return = cell_mul (cell_sub (cell_div future current) (Some 1)) (Some 100),
              reason = r,
              outcome = classify p (cell_mul (cell_sub (cell_div future current) (Some 1)) (Some 100))\<rparr>"
  have s: "step features ensemble rsi enhanced_data prediction_interval i = Inr (?t, i + 3)"
    using fut cur ep st by (simp add: step_def Let_def)
  then have "walk (step features ensemble rsi enhanced_data prediction_interval) (i # items) acc
                 = walk (step features ensemble rsi enhanced_data prediction_interval)
                     items (acc @ [?t])"
    by simp
  with s ep show ?thesis by auto
qed

text \<open>
  On the history of 40 bars, with a main path that raises at every position and an RSI
  library that raises, the walk is completed and every position is a trade with the
  label of the rule-based predictor, here Bullish, which counts as a success.
\<close>

lemma fallback_trades_are_bullish:
  "(case run_backtest (fetch (history 40)) no_features (failing_stage :: unit ensemble_stage)
           no_rsi ''BTC'' ''1y'' 7
    of Inl e \<Rightarrow> None
     | Inr r \<Rightarrow> Some (map prediction (trades r), neutral_trades r, successful_trades r))
   = Some ([''Bullish'', ''Bullish'', ''Bullish''], 0, 3)"
  by code_simp

text \<open>
  Claim C7. When the symbol is given and the market data source returns a table that
  is empty or has fewer than 30 rows, \<open>run_backtest\<close> returns the insufficient-data
  error with status 400, whatever the feature stage and the stages of the predictor
  are: none is consulted, and no report and no trade is produced.
\<close>

theorem insufficient_history_fails_fast:
  assumes "symbol \<noteq> []" "download (normalize_symbol symbol) period = Inr data"
    "empty_df data \<or> len data < 30"
  shows "run_backtest download features ensemble rsi symbol period prediction_interval
           = Inl (InsufficientData (normalize_symbol symbol), 400)"
  using assms by (simp add: run_backtest_def Let_def)

text \<open>Witness for claim C7: a history of 29 bars.\<close>

theorem insufficient_history_fails_fast_witness:
  "''BTC'' \<noteq> [] \<and> fetch (history 29) (normalize_symbol ''BTC'') ''1mo'' = Inr (history 29)
   \<and> (empty_df (history 29) \<or> len (history 29) < 30)
   \<and> run_backtest (fetch (history 29)) no_features bullish_ensemble no_rsi ''BTC'' ''1mo'' 7
        = Inl (InsufficientData ''BTC-USD'', 400)"
proof -
  have h1: "''BTC'' \<noteq> []" by simp
  have h2: "fetch (history 29) (normalize_symbol ''BTC'') ''1mo'' = Inr (history 29)"
    by (simp add: fetch_def)
  have h3: "empty_df (history 29) \<or> len (history 29) < 30"
    by (simp add: len_def history_def)
  have n: "normalize_symbol ''BTC'' = ''BTC-USD''" by code_simp
  from insufficient_history_fails_fast [where symbol = "''BTC''" and download = "fetch (history 29)"
         and period = "''1mo''" and data = "history 29" and features = no_features
         and ensemble = bullish_ensemble and rsi = no_rsi
         and prediction_interval = 7, OF h1 h2 h3]
    h1 h2 h3 n
  show ?thesis by simp
qed


end

